theory Spec2Isabelle
  imports Main "HOL-Library.List_Lexorder" "HOL-Library.Char_ord" "HOL-Library.AList"
begin

section \<open>Go strings and errors\<close>

text \<open>
  A Go string is a sequence of bytes, as a HOL \<open>string\<close> is. The library functions of
  package \<open>strings\<close> are modelled on ASCII: \<open>ToLower\<close> maps the letters A to Z,
  \<open>TrimSpace\<close> removes tab, line feed, vertical tab, form feed, carriage return and
  space. Bytes beyond ASCII are left as they are.
\<close>

definition toLowerByte :: "char \<Rightarrow> char" where
  "toLowerByte c =
     (if CHR ''A'' \<le> c \<and> c \<le> CHR ''Z'' then char_of (of_char c + (32::nat)) else c)"

definition ToLower :: "string \<Rightarrow> string" where
  "ToLower s = map toLowerByte s"

definition isSpaceByte :: "char \<Rightarrow> bool" where
  "isSpaceByte c =
     (c = CHR 0x09 \<or> c = CHR 0x0A \<or> c = CHR 0x0B \<or> c = CHR 0x0C \<or> c = CHR 0x0D \<or> c = CHR '' '')"

definition TrimSpace :: "string \<Rightarrow> string" where
  "TrimSpace s = rev (dropWhile isSpaceByte (rev (dropWhile isSpaceByte s)))"

text \<open>\<open>strings.Contains s substr\<close>: \<open>substr\<close> occurs in \<open>s\<close>.\<close>

fun Contains :: "string \<Rightarrow> string \<Rightarrow> bool" where
  "Contains [] substr = (substr = [])"
| "Contains (c # cs) substr = (take (length substr) (c # cs) = substr \<or> Contains cs substr)"

text \<open>
  The verb \<open>%q\<close> of package \<open>fmt\<close> (\<open>strconv.Quote\<close>) on printable ASCII: the
  string in double quotes, with a backslash before each double quote and backslash.
\<close>

definition quote :: "string \<Rightarrow> string" where
  "quote s =
     CHR 0x22 # concat (map (\<lambda>c. if c = CHR 0x22 \<or> c = CHR 0x5C then [CHR 0x5C, c] else [c]) s)
       @ [CHR 0x22]"

text \<open>The verb \<open>%d\<close> and \<open>strconv.Itoa\<close> on a number that is not negative.\<close>

fun Itoa :: "nat \<Rightarrow> string" where
  "Itoa n =
     (if n < 10 then [char_of (48 + n)] else Itoa (n div 10) @ [char_of (48 + n mod 10)])"

declare Itoa.simps [simp del]

text \<open>
  An error value is a message, the sentinel or error type it stands for, and the chain
  of errors it wraps. \<open>Err k msg\<close> is an error of kind \<open>k\<close> whose \<open>Error()\<close> is
  \<open>msg\<close>: \<open>Plain\<close> for \<open>errors.New\<close> and \<open>fmt.Errorf\<close> without \<open>%w\<close>,
  \<open>Unauthorized\<close> for the MCP library's \<open>transport.ErrUnauthorized\<close>,
  \<open>AuthorizationRequired\<close> for its \<open>OAuthAuthorizationRequiredError\<close>, \<open>NotExist\<close>
  for \<open>fs.ErrNotExist\<close>. \<open>Wrap prefix e\<close> is \<open>fmt.Errorf(prefix + "%w", e)\<close>; every
  \<open>%w\<close> of the program stands last in its format.
\<close>

datatype err_kind = Plain | Unauthorized | AuthorizationRequired | NotExist

datatype error = Err err_kind string | Wrap string error

fun errorString :: "error \<Rightarrow> string" where
  "errorString (Err k msg) = msg"
| "errorString (Wrap prefix e) = prefix @ errorString e"

text \<open>\<open>errors.Is\<close> and \<open>errors.As\<close>: some error of the chain has the kind.\<close>

fun errors_Is :: "error \<Rightarrow> err_kind \<Rightarrow> bool" where
  "errors_Is (Err k msg) target = (k = target)"
| "errors_Is (Wrap prefix e) target = errors_Is e target"

section \<open>The platform: environment variables, user id, paths\<close>

text \<open>
  The process environment is a parameter of the model. \<open>filepath.Join\<close> is library
  code no property below depends on; it is taken from the platform as well.
\<close>

record platform =
  Getenv :: "string \<Rightarrow> string"
  Getuid :: nat
  filepath_Join :: "string list \<Rightarrow> string"

text \<open>
  \<open>os.ExpandEnv\<close> is \<open>os.Expand\<close> with \<open>os.Getenv\<close>: it replaces \<open>$name\<close> and
  \<open>${name}\<close>. \<open>getShellName\<close> returns the name that follows a dollar sign and the
  number of bytes it takes; the library calls it on a string that is not empty.
\<close>

definition isShellSpecialVar :: "char \<Rightarrow> bool" where
  "isShellSpecialVar c = (c \<in> set ''*#$@!?-0123456789'')"

definition isAlphaNum :: "char \<Rightarrow> bool" where
  "isAlphaNum c =
     (c = CHR ''_'' \<or> (CHR ''0'' \<le> c \<and> c \<le> CHR ''9'') \<or> (CHR ''a'' \<le> c \<and> c \<le> CHR ''z'')
      \<or> (CHR ''A'' \<le> c \<and> c \<le> CHR ''Z''))"

definition scanBrace :: "string \<Rightarrow> string \<times> nat" where
  "scanBrace cs =
     (let body = takeWhile (\<lambda>c. c \<noteq> CHR ''}'') cs in
      if length body = length cs then ([], 1)
      else if body = [] then ([], 2)
      else (body, length body + 2))"

fun getShellName :: "string \<Rightarrow> string \<times> nat" where
  "getShellName [] = ([], 0)"
| "getShellName (c # cs) =
     (if c = CHR ''{'' then
        (case cs of
           v # b # rest \<Rightarrow> if isShellSpecialVar v \<and> b = CHR ''}'' then ([v], 3) else scanBrace cs
         | _ \<Rightarrow> scanBrace cs)
      else if isShellSpecialVar c then ([c], 1)
      else (takeWhile isAlphaNum (c # cs), length (takeWhile isAlphaNum (c # cs))))"

fun Expand :: "string \<Rightarrow> (string \<Rightarrow> string) \<Rightarrow> string" where
  "Expand [] mapping = []"
| "Expand (c # rest) mapping =
     (if c = CHR ''$'' \<and> rest \<noteq> [] then
        (if fst (getShellName rest) = [] \<and> snd (getShellName rest) > 0 then []
         else if fst (getShellName rest) = [] then [c]
         else mapping (fst (getShellName rest)))
        @ Expand (drop (snd (getShellName rest)) rest) mapping
      else c # Expand rest mapping)"

definition ExpandEnv :: "platform \<Rightarrow> string \<Rightarrow> string" where
  "ExpandEnv os s = Expand s (Getenv os)"

section \<open>Configuration (internal/config/config.go)\<close>

text \<open>
  A Go map from strings to strings is an association list whose keys are distinct; a
  nil map or slice is the empty list.
\<close>

type_synonym headers = "(string \<times> string) list"

record MCPServer =
  Name :: string
  Alias :: string
  URL :: string
  Transport :: string
  Headers :: headers
  Command :: "string list"
  Env :: "string list"

record ServerConfig =
  SocketPath :: string
  DBPath :: string

record Config =
  Server :: ServerConfig
  Servers :: "MCPServer list"

definition normalizeTransport :: "string \<Rightarrow> error + string" where
  "normalizeTransport v =
     (let t = TrimSpace (ToLower v) in
      if t = [] \<or> t = ''http'' \<or> t = ''streamable-http'' then Inr ''http''
      else if t = ''sse'' then Inr ''sse''
      else if t = ''stdio'' then Inr ''stdio''
      else Inl (Err Plain (''unsupported transport '' @ quote v @ '' (expected http, sse, or stdio)'')))"

definition DefaultSocketPath :: "platform \<Rightarrow> string" where
  "DefaultSocketPath os =
     (if TrimSpace (Getenv os ''XDG_RUNTIME_DIR'') \<noteq> []
      then filepath_Join os [TrimSpace (Getenv os ''XDG_RUNTIME_DIR''), ''mcpshim.sock'']
      else ''/tmp/mcpshim-'' @ Itoa (Getuid os) @ ''.sock'')"

definition homeDir :: "platform \<Rightarrow> string" where
  "homeDir os =
     (if TrimSpace (Getenv os ''HOME'') \<noteq> [] then TrimSpace (Getenv os ''HOME'')
      else ''/tmp/mcpshim-'' @ Itoa (Getuid os))"

definition DefaultDBPath :: "platform \<Rightarrow> string" where
  "DefaultDBPath os =
     (if TrimSpace (Getenv os ''XDG_DATA_HOME'') \<noteq> []
      then filepath_Join os [TrimSpace (Getenv os ''XDG_DATA_HOME''), ''mcpshim'', ''mcpshim.db'']
      else filepath_Join os [homeDir os, ''.local'', ''share'', ''mcpshim'', ''mcpshim.db''])"

text \<open>
  \<open>validate\<close>: the loop over the servers, with the names and aliases seen so far.
\<close>

fun validateServers :: "string set \<Rightarrow> string set \<Rightarrow> MCPServer list \<Rightarrow> error option" where
  "validateServers seen aliases [] = None"
| "validateServers seen aliases (s # rest) =
     (if Name s = [] then Some (Err Plain ''server name is required'')
      else case normalizeTransport (Transport s) of
        Inl err \<Rightarrow> Some (Wrap (''server '' @ quote (Name s) @ '': '') err)
      | Inr transport \<Rightarrow>
          if transport = ''stdio'' \<and> Command s = [] then
            Some (Err Plain (''server '' @ quote (Name s) @ '' command is required for stdio transport''))
          else if transport \<noteq> ''stdio'' \<and> URL s = [] then
            Some (Err Plain (''server '' @ quote (Name s) @ '' url is required''))
          else if Name s \<in> seen then
            Some (Err Plain (''duplicate server name '' @ quote (Name s)))
          else
            (let alias = (if Alias s = [] then Name s else Alias s) in
             if alias \<in> aliases then Some (Err Plain (''duplicate alias '' @ quote alias))
             else validateServers (insert (Name s) seen) (insert alias aliases) rest))"

definition validate :: "Config \<Rightarrow> error option" where
  "validate cfg = validateServers {} {} (Servers cfg)"

text \<open>
  The file system holds, for each path, what the YAML decoder makes of the file: a
  document that decodes to a configuration, or a file the decoder rejects with an
  error. \<open>yaml.Marshal\<close> followed by the decoder gives back the configuration it was
  given (the YAML codec itself is library code). The outcome of a system call that can
  fail for reasons outside the program is read from the tables \<open>MkdirAll_error\<close>,
  \<open>WriteFile_error\<close> and \<open>Rename_error\<close>, keyed by the path \<open>Save\<close> works on.
\<close>

datatype file_data = YamlDoc Config | Undecodable error

record filesystem =
  files :: "(string \<times> file_data) list"
  MkdirAll_error :: "(string \<times> error) list"
  WriteFile_error :: "(string \<times> error) list"
  Rename_error :: "(string \<times> error) list"

definition ReadFile :: "filesystem \<Rightarrow> string \<Rightarrow> error + file_data" where
  "ReadFile fs path =
     (case map_of (files fs) path of
        None \<Rightarrow> Inl (Err NotExist (''open '' @ path @ '': no such file or directory''))
      | Some d \<Rightarrow> Inr d)"

definition WriteFile :: "filesystem \<Rightarrow> string \<Rightarrow> file_data \<Rightarrow> error + filesystem" where
  "WriteFile fs path d =
     (case map_of (WriteFile_error fs) path of
        Some err \<Rightarrow> Inl err
      | None \<Rightarrow> Inr (fs\<lparr>files := AList.update path d (files fs)\<rparr>))"

definition Remove :: "filesystem \<Rightarrow> string \<Rightarrow> filesystem" where
  "Remove fs path = fs\<lparr>files := AList.delete path (files fs)\<rparr>"

definition Rename :: "filesystem \<Rightarrow> string \<Rightarrow> string \<Rightarrow> error + filesystem" where
  "Rename fs old new =
     (case map_of (Rename_error fs) new of
        Some err \<Rightarrow> Inl err
      | None \<Rightarrow>
          (case map_of (files fs) old of
             None \<Rightarrow> Inl (Err NotExist (''rename '' @ old @ '' '' @ new @ '': no such file or directory''))
           | Some d \<Rightarrow> Inr (fs\<lparr>files := AList.update new d (AList.delete old (files fs))\<rparr>)))"

definition yaml_Marshal :: "Config \<Rightarrow> file_data" where
  "yaml_Marshal cfg = YamlDoc cfg"

definition yaml_Decode :: "file_data \<Rightarrow> error + Config" where
  "yaml_Decode d = (case d of YamlDoc cfg \<Rightarrow> Inr cfg | Undecodable err \<Rightarrow> Inl err)"

text \<open>The body of the loop of \<open>Load\<close> over the servers, and the loop.\<close>

definition loadServer :: "platform \<Rightarrow> MCPServer \<Rightarrow> error + MCPServer" where
  "loadServer os s =
     (let s1 = s\<lparr>URL := ExpandEnv os (URL s),
                 Headers := map (\<lambda>(k, v). (k, ExpandEnv os v)) (Headers s),
                 Command := map (ExpandEnv os) (Command s),
                 Env := map (ExpandEnv os) (Env s)\<rparr>
      in case normalizeTransport (Transport s1) of
           Inl transportErr \<Rightarrow> Inl transportErr
         | Inr transport \<Rightarrow>
             Inr (s1\<lparr>Transport := transport,
                     Alias := (if Alias s1 = [] then Name s1 else Alias s1)\<rparr>))"

fun loadServers :: "platform \<Rightarrow> MCPServer list \<Rightarrow> error + MCPServer list" where
  "loadServers os [] = Inr []"
| "loadServers os (s # rest) =
     (case loadServer os s of
        Inl err \<Rightarrow> Inl err
      | Inr s' \<Rightarrow> (case loadServers os rest of Inl err \<Rightarrow> Inl err | Inr rest' \<Rightarrow> Inr (s' # rest')))"

definition Load :: "platform \<Rightarrow> filesystem \<Rightarrow> string \<Rightarrow> error + Config" where
  "Load os fs path =
     (case ReadFile fs path of
        Inl err \<Rightarrow> Inl err
      | Inr d \<Rightarrow>
          (case yaml_Decode d of
             Inl err \<Rightarrow> Inl err
           | Inr cfg \<Rightarrow>
               (let server =
                      \<lparr>SocketPath = (if SocketPath (Server cfg) = [] then DefaultSocketPath os
                                      else SocketPath (Server cfg)),
                       DBPath = (if DBPath (Server cfg) = [] then DefaultDBPath os
                                  else DBPath (Server cfg))\<rparr>
                in case loadServers os (Servers cfg) of
                     Inl err \<Rightarrow> Inl err
                   | Inr servers \<Rightarrow>
                       (case validate \<lparr>Server = server, Servers = servers\<rparr> of
                          Some err \<Rightarrow> Inl err
                        | None \<Rightarrow> Inr \<lparr>Server = server, Servers = servers\<rparr>))))"

text \<open>
  \<open>Save\<close> returns its error and the file system it leaves. The configuration is a
  pointer in the source: \<open>None\<close> is nil.
\<close>

definition Save :: "platform \<Rightarrow> filesystem \<Rightarrow> string \<Rightarrow> Config option \<Rightarrow> error option \<times> filesystem" where
  "Save os fs path cfgp =
     (case cfgp of
        None \<Rightarrow> (Some (Err Plain ''nil config''), fs)
      | Some cfg \<Rightarrow>
          (case validate cfg of
             Some err \<Rightarrow> (Some err, fs)
           | None \<Rightarrow>
               (case map_of (MkdirAll_error fs) path of
                  Some err \<Rightarrow> (Some err, fs)
                | None \<Rightarrow>
                    (case WriteFile fs (path @ ''.tmp'') (yaml_Marshal cfg) of
                       Inl err \<Rightarrow> (Some err, fs)
                     | Inr fs1 \<Rightarrow>
                         (case Load os fs1 (path @ ''.tmp'') of
                            Inl err \<Rightarrow>
                              (Some (Wrap ''resulting config is invalid: '' err),
                               Remove fs1 (path @ ''.tmp''))
                          | Inr loaded \<Rightarrow>
                              (case Rename fs1 (path @ ''.tmp'') path of
                                 Inl err \<Rightarrow> (Some err, Remove fs1 (path @ ''.tmp''))
                               | Inr fs2 \<Rightarrow> (None, fs2)))))))"

text \<open>\<open>UpsertServer\<close>: the loop that replaces the server of the same name, or appends.\<close>

fun upsert :: "MCPServer list \<Rightarrow> MCPServer \<Rightarrow> MCPServer list" where
  "upsert [] item = [item]"
| "upsert (s # rest) item = (if Name s = Name item then item # rest else s # upsert rest item)"

definition UpsertServer :: "Config \<Rightarrow> MCPServer \<Rightarrow> Config" where
  "UpsertServer cfg item =
     (let transport = (case normalizeTransport (Transport item) of
                         Inl err \<Rightarrow> ''http''
                       | Inr t \<Rightarrow> t);
          item1 = item\<lparr>Transport := transport\<rparr>;
          item2 = (if Alias item1 = [] then item1\<lparr>Alias := Name item1\<rparr> else item1)
      in cfg\<lparr>Servers := upsert (Servers cfg) item2\<rparr>)"

text \<open>\<open>findServer\<close> of package mcp: the first server with the name or the alias.\<close>

fun findServerIn :: "MCPServer list \<Rightarrow> string \<Rightarrow> MCPServer option" where
  "findServerIn [] nameOrAlias = None"
| "findServerIn (s # rest) nameOrAlias =
     (if Name s = nameOrAlias \<or> Alias s = nameOrAlias then Some s else findServerIn rest nameOrAlias)"

definition findServer :: "Config \<Rightarrow> string \<Rightarrow> MCPServer option" where
  "findServer cfg nameOrAlias = findServerIn (Servers cfg) nameOrAlias"

section \<open>JSON values and tool schemas (package mcp: parseSchema, parseSchemaDetail)\<close>

text \<open>
  A JSON value. A number is held as the text that the verb \<open>%v\<close> prints for the
  \<open>float64\<close> it decodes to; an object is the list of its members in the order of the
  text. The argument of \<open>parseSchema\<close> is any Go value: \<open>Marshals j\<close> is a value that
  \<open>json.Marshal\<close> renders as \<open>j\<close>, \<open>Unsupported err\<close> one that it rejects.
\<close>

datatype json =
    JNull
  | JBool bool
  | JNumber string
  | JString string
  | JArray "json list"
  | JObject "(string \<times> json) list"

datatype go_value = Marshals json | Unsupported error

definition json_Marshal :: "go_value \<Rightarrow> error + json" where
  "json_Marshal v = (case v of Marshals j \<Rightarrow> Inr j | Unsupported err \<Rightarrow> Inl err)"

text \<open>
  \<open>json.Unmarshal\<close> into the struct types of the two functions, as package
  \<open>encoding/json\<close> decodes: a member is matched to a field by its name without regard
  to case; null leaves a string as it is and makes a slice or a map nil; an object
  adds its members to a map, a later member of the same name replacing an earlier one;
  a value of the wrong type is an error (\<open>None\<close>), whatever else the text holds;
  members that match no field are skipped.
\<close>

definition unmarshalString :: "json \<Rightarrow> string \<Rightarrow> string option" where
  "unmarshalString v old = (case v of JString s \<Rightarrow> Some s | JNull \<Rightarrow> Some old | _ \<Rightarrow> None)"

definition unmarshalStrings :: "json \<Rightarrow> string list option" where
  "unmarshalStrings v =
     (case v of
        JNull \<Rightarrow> Some []
      | JArray xs \<Rightarrow> those (map (\<lambda>x. unmarshalString x []) xs)
      | _ \<Rightarrow> None)"

text \<open>The struct \<open>inputSchema\<close> of \<open>parseSchema\<close>: the pair of \<open>Required\<close> and \<open>Properties\<close>.\<close>

fun unmarshalInputSchemaFields ::
  "(string \<times> json) list \<Rightarrow> string list \<times> (string \<times> json) list
     \<Rightarrow> (string list \<times> (string \<times> json) list) option" where
  "unmarshalInputSchemaFields [] parsed = Some parsed"
| "unmarshalInputSchemaFields ((key, v) # rest) (required, properties) =
     (if ToLower key = ''required'' then
        (case unmarshalStrings v of
           None \<Rightarrow> None
         | Some r \<Rightarrow> unmarshalInputSchemaFields rest (r, properties))
      else if ToLower key = ''properties'' then
        (case v of
           JNull \<Rightarrow> unmarshalInputSchemaFields rest (required, [])
         | JObject members \<Rightarrow>
             unmarshalInputSchemaFields rest
               (required, fold (\<lambda>(k, x). AList.update k x) members properties)
         | _ \<Rightarrow> None)
      else unmarshalInputSchemaFields rest (required, properties))"

definition unmarshalInputSchema :: "json \<Rightarrow> (string list \<times> (string \<times> json) list) option" where
  "unmarshalInputSchema b =
     (case b of
        JNull \<Rightarrow> Some ([], [])
      | JObject members \<Rightarrow> unmarshalInputSchemaFields members ([], [])
      | _ \<Rightarrow> None)"

text \<open>
  \<open>sort.Strings\<close> orders byte strings lexicographically, as \<open>sort\<close> does on
  \<open>string\<close> with the order of the bytes.
\<close>

definition parseSchema :: "go_value \<Rightarrow> string list \<times> string list" where
  "parseSchema schema =
     (case json_Marshal schema of
        Inl err \<Rightarrow> ([], [])
      | Inr b \<Rightarrow>
          (case unmarshalInputSchema b of
             None \<Rightarrow> ([], [])
           | Some (required, properties) \<Rightarrow> (required, sort (map fst properties))))"

record propEntry =
  Type :: string
  Enum :: "json list"
  Const :: json
  Description :: string

definition zeroPropEntry :: propEntry where
  "zeroPropEntry = \<lparr>Type = [], Enum = [], Const = JNull, Description = []\<rparr>"

fun unmarshalPropEntryFields :: "(string \<times> json) list \<Rightarrow> propEntry \<Rightarrow> propEntry option" where
  "unmarshalPropEntryFields [] p = Some p"
| "unmarshalPropEntryFields ((key, v) # rest) p =
     (if ToLower key = ''type'' then
        (case unmarshalString v (Type p) of
           None \<Rightarrow> None
         | Some t \<Rightarrow> unmarshalPropEntryFields rest (p\<lparr>Type := t\<rparr>))
      else if ToLower key = ''enum'' then
        (case v of
           JNull \<Rightarrow> unmarshalPropEntryFields rest (p\<lparr>Enum := []\<rparr>)
         | JArray xs \<Rightarrow> unmarshalPropEntryFields rest (p\<lparr>Enum := xs\<rparr>)
         | _ \<Rightarrow> None)
      else if ToLower key = ''const'' then unmarshalPropEntryFields rest (p\<lparr>Const := v\<rparr>)
      else if ToLower key = ''description'' then
        (case unmarshalString v (Description p) of
           None \<Rightarrow> None
         | Some d \<Rightarrow> unmarshalPropEntryFields rest (p\<lparr>Description := d\<rparr>))
      else unmarshalPropEntryFields rest p)"

definition unmarshalPropEntry :: "json \<Rightarrow> propEntry option" where
  "unmarshalPropEntry v =
     (case v of
        JNull \<Rightarrow> Some zeroPropEntry
      | JObject members \<Rightarrow> unmarshalPropEntryFields members zeroPropEntry
      | _ \<Rightarrow> None)"

text \<open>The members of \<open>properties\<close>, each decoded into a fresh entry of the map.\<close>

fun unmarshalPropEntries ::
  "(string \<times> json) list \<Rightarrow> (string \<times> propEntry) list \<Rightarrow> (string \<times> propEntry) list option" where
  "unmarshalPropEntries [] properties = Some properties"
| "unmarshalPropEntries ((k, v) # rest) properties =
     (case unmarshalPropEntry v of
        None \<Rightarrow> None
      | Some p \<Rightarrow> unmarshalPropEntries rest (AList.update k p properties))"

text \<open>The struct \<open>inputSchema\<close> of \<open>parseSchemaDetail\<close>: its one field \<open>Properties\<close>.\<close>

fun unmarshalInputSchemaDetailFields ::
  "(string \<times> json) list \<Rightarrow> (string \<times> propEntry) list \<Rightarrow> (string \<times> propEntry) list option" where
  "unmarshalInputSchemaDetailFields [] properties = Some properties"
| "unmarshalInputSchemaDetailFields ((key, v) # rest) properties =
     (if ToLower key = ''properties'' then
        (case v of
           JNull \<Rightarrow> unmarshalInputSchemaDetailFields rest []
         | JObject members \<Rightarrow>
             (case unmarshalPropEntries members properties of
                None \<Rightarrow> None
              | Some properties' \<Rightarrow> unmarshalInputSchemaDetailFields rest properties')
         | _ \<Rightarrow> None)
      else unmarshalInputSchemaDetailFields rest properties)"

definition unmarshalInputSchemaDetail :: "json \<Rightarrow> (string \<times> propEntry) list option" where
  "unmarshalInputSchemaDetail b =
     (case b of
        JNull \<Rightarrow> Some []
      | JObject members \<Rightarrow> unmarshalInputSchemaDetailFields members []
      | _ \<Rightarrow> None)"

text \<open>
  \<open>fmt.Sprintf("%v", v)\<close> on a decoded JSON value: nil, a bool, a \<open>float64\<close>, a
  string, a slice, or a map, which \<open>fmt\<close> prints in the order of its keys.
\<close>

fun joinSpace :: "string list \<Rightarrow> string" where
  "joinSpace [] = []"
| "joinSpace [x] = x"
| "joinSpace (x # y # rest) = x @ '' '' @ joinSpace (y # rest)"

fun Sprint :: "json \<Rightarrow> string" where
  "Sprint JNull = ''<nil>''"
| "Sprint (JBool b) = (if b then ''true'' else ''false'')"
| "Sprint (JNumber t) = t"
| "Sprint (JString s) = s"
| "Sprint (JArray xs) = ''['' @ joinSpace (map Sprint xs) @ '']''"
| "Sprint (JObject members) =
     ''map[''
     @ joinSpace
         (map (\<lambda>(k, t). k @ '':'' @ t)
            (sort_key fst
               (fold (\<lambda>(k, t). AList.update k t) (map (\<lambda>(k, v). (k, Sprint v)) members) [])))
     @ '']''"

record PropertyDetail =
  Name :: string
  Type :: string
  Enum :: "string list"
  Const :: string
  Description :: string
  Required :: bool

definition parseSchemaDetail :: "go_value \<Rightarrow> string list \<Rightarrow> PropertyDetail list" where
  "parseSchemaDetail schema requiredList =
     (case json_Marshal schema of
        Inl err \<Rightarrow> []
      | Inr b \<Rightarrow>
          (case unmarshalInputSchemaDetail b of
             None \<Rightarrow> []
           | Some properties \<Rightarrow>
               map (\<lambda>k.
                      let p = (case map_of properties k of None \<Rightarrow> zeroPropEntry | Some e \<Rightarrow> e)
                      in \<lparr>PropertyDetail.Name = k,
                          PropertyDetail.Type = propEntry.Type p,
                          PropertyDetail.Enum = map Sprint (propEntry.Enum p),
                          PropertyDetail.Const =
                            (if propEntry.Const p \<noteq> JNull then Sprint (propEntry.Const p) else []),
                          PropertyDetail.Description = propEntry.Description p,
                          PropertyDetail.Required = (k \<in> set requiredList)\<rparr>)
                   (sort (map fst properties))))"

section \<open>Call history (internal/protocol/protocol.go, internal/store/sqlite.go)\<close>

text \<open>
  An instant is its number of nanoseconds since the Unix epoch, on the wall clock.
\<close>

record HistoryItem =
  At :: int
  Server :: string
  Tool :: string
  Args :: "(string \<times> json) list"
  Success :: bool
  Error :: string
  DurationMs :: int

text \<open>
  A row of the table \<open>call_history\<close>, each field named after its column. The
  text columns \<open>at_utc\<close> and \<open>args_json\<close> are held as what the program's
  decoder makes of them: \<open>at_utc\<close> is the instant its
  RFC 3339 text denotes, or a text that \<open>time.Parse\<close> rejects; \<open>args_json\<close> is NULL,
  the empty string, the JSON object its text denotes, or a text that \<open>json.Unmarshal\<close>
  rejects for a map. \<open>Format\<close> followed by \<open>Parse\<close>, and \<open>Marshal\<close> followed by
  \<open>Unmarshal\<close>, give the value back. The column \<open>error\<close> may be NULL.
\<close>

datatype at_text = AtText int | AtUnparsable string

datatype args_text = ArgsNull | ArgsEmpty | ArgsText "(string \<times> json) list" | ArgsUndecodable string

record history_row =
  row_id :: nat
  row_at_utc :: at_text
  row_server :: string
  row_tool :: string
  row_args_json :: args_text
  row_success :: int
  row_error :: "string option"
  row_duration_ms :: int

text \<open>
  The store: the rows of \<open>call_history\<close>, the largest id the table has given out
  (\<open>AUTOINCREMENT\<close>), and the error, if any, with which the database answers a
  statement (a closed handle, an I/O error). The table \<open>oauth_tokens\<close> is read and
  written by the MCP library's OAuth transport only and is not part of the model.
\<close>

record Store =
  call_history :: "history_row list"
  sequence :: nat
  db_error :: "error option"

definition boolToInt :: "bool \<Rightarrow> int" where
  "boolToInt b = (if b then 1 else 0)"

definition nextRowId :: "Store \<Rightarrow> nat" where
  "nextRowId s = Suc (fold max (map row_id (call_history s)) (sequence s))"

text \<open>
  \<open>InsertHistory\<close> returns its error and the store it leaves. The arguments are JSON
  values, which \<open>json.Marshal\<close> never rejects.
\<close>

definition InsertHistory :: "Store \<Rightarrow> HistoryItem \<Rightarrow> error option \<times> Store" where
  "InsertHistory s item =
     (let argsJSON = (if length (Args item) > 0 then ArgsText (Args item) else ArgsEmpty) in
      case db_error s of
        Some err \<Rightarrow> (Some (Wrap ''insert history: '' err), s)
      | None \<Rightarrow>
          (None,
           s\<lparr>call_history :=
                call_history s @
                  [\<lparr>row_id = nextRowId s,
                    row_at_utc = AtText (At item),
                    row_server = Server item,
                    row_tool = Tool item,
                    row_args_json = argsJSON,
                    row_success = boolToInt (Success item),
                    row_error = Some (Error item),
                    row_duration_ms = DurationMs item\<rparr>],
              sequence := nextRowId s\<rparr>))"

text \<open>
  The loop over the rows of the result: \<open>Scan\<close> fails on a NULL in \<open>args_json\<close>; a
  time that does not parse is replaced by the current time \<open>now\<close>.
\<close>

definition scanRow :: "int \<Rightarrow> history_row \<Rightarrow> HistoryItem" where
  "scanRow now r =
     \<lparr>At = (case row_at_utc r of AtText t \<Rightarrow> t | AtUnparsable x \<Rightarrow> now),
      Server = row_server r,
      Tool = row_tool r,
      Args = (case row_args_json r of ArgsText argsMap \<Rightarrow> argsMap | _ \<Rightarrow> []),
      Success = (row_success r = 1),
      Error = (case row_error r of Some errText \<Rightarrow> errText | None \<Rightarrow> []),
      DurationMs = row_duration_ms r\<rparr>"

fun scanRows :: "int \<Rightarrow> history_row list \<Rightarrow> error + HistoryItem list" where
  "scanRows now [] = Inr []"
| "scanRows now (r # rest) =
     (if row_args_json r = ArgsNull then
        Inl (Wrap ''scan history: ''
               (Err Plain (''sql: Scan error on column index 3, name '' @ quote ''args_json''
                           @ '': converting NULL to string is unsupported'')))
      else case scanRows now rest of
             Inl err \<Rightarrow> Inl err
           | Inr out \<Rightarrow> Inr (scanRow now r # out))"

text \<open>
  The loop at the end of \<open>ListHistory\<close>, which swaps \<open>out[left]\<close> and \<open>out[right]\<close>
  while \<open>left < right\<close>. It starts at \<open>0\<close> and \<open>len(out) - 1\<close>, so both indices stay
  in range.
\<close>

function reverseLoop :: "int \<Rightarrow> int \<Rightarrow> 'a list \<Rightarrow> 'a list" where
  "reverseLoop left right out =
     (if left < right
      then reverseLoop (left + 1) (right - 1)
             (out[nat left := out ! nat right, nat right := out ! nat left])
      else out)"
  by pat_completeness auto
termination
  by (relation "measure (\<lambda>(left, right, out). nat (right - left))") auto

declare reverseLoop.simps [simp del]

text \<open>
  The query \<open>SELECT ... WHERE server = ? AND tool = ? ORDER BY id DESC LIMIT ?\<close>, each
  condition present when its filter is not empty: the rows that match, by descending
  id, at most \<open>limit\<close> of them.
\<close>

definition selectHistory :: "Store \<Rightarrow> string \<Rightarrow> string \<Rightarrow> int \<Rightarrow> history_row list" where
  "selectHistory s serverFilter toolFilter limit =
     take (nat limit)
       (rev (sort_key row_id
          (filter (\<lambda>r. (serverFilter = [] \<or> row_server r = serverFilter)
                      \<and> (toolFilter = [] \<or> row_tool r = toolFilter))
             (call_history s))))"

definition ListHistory ::
  "int \<Rightarrow> Store \<Rightarrow> string \<Rightarrow> string \<Rightarrow> int \<Rightarrow> error + HistoryItem list" where
  "ListHistory now s serverFilter toolFilter limit =
     (let limit1 = (if limit \<le> 0 then 50 else limit);
          limit2 = (if limit1 > 500 then 500 else limit1)
      in case db_error s of
           Some err \<Rightarrow> Inl (Wrap ''list history: '' err)
         | None \<Rightarrow>
             (case scanRows now (selectHistory s serverFilter toolFilter limit2) of
                Inl err \<Rightarrow> Inl err
              | Inr out \<Rightarrow> Inr (reverseLoop 0 (int (length out) - 1) out)))"

section \<open>MCP clients, sessions and the OAuth fallback (package mcp)\<close>

text \<open>
  \<open>http.CanonicalHeaderKey\<close>: a key of header field bytes only gets an upper-case
  first letter and an upper-case letter after each hyphen, the other letters in lower
  case; any other key is returned as it is.
\<close>

definition validHeaderFieldByte :: "char \<Rightarrow> bool" where
  "validHeaderFieldByte c =
     (isAlphaNum c \<or> c \<in> set ''!#$%&*+-.^|~'' \<or> c = CHR 0x27 \<or> c = CHR 0x60)"

definition toUpperByte :: "char \<Rightarrow> char" where
  "toUpperByte c =
     (if CHR ''a'' \<le> c \<and> c \<le> CHR ''z'' then char_of (of_char c - (32::nat)) else c)"

fun canonicalBytes :: "bool \<Rightarrow> string \<Rightarrow> string" where
  "canonicalBytes upper [] = []"
| "canonicalBytes upper (c # cs) =
     (let c' = (if upper then toUpperByte c else toLowerByte c)
      in c' # canonicalBytes (c' = CHR ''-'') cs)"

definition CanonicalHeaderKey :: "string \<Rightarrow> string" where
  "CanonicalHeaderKey s = (if list_all validHeaderFieldByte s then canonicalBytes True s else s)"

definition hasAuthorizationHeader :: "headers \<Rightarrow> bool" where
  "hasAuthorizationHeader hs = list_ex (\<lambda>(key, v). CanonicalHeaderKey key = ''Authorization'') hs"

text \<open>
  A client handle is the constructor of the MCP library that made it, with its
  arguments. \<open>TokenStore\<close> is the server name the SQLite token store is bound to.
\<close>

record OAuthConfig =
  RedirectURI :: string
  TokenStore :: string
  PKCEEnabled :: bool

datatype ClientOption = WithHeaders headers | WithHTTPHeaders headers

datatype compatibleClient =
    SSEMCPClient string "ClientOption list"
  | StreamableHttpClient string "ClientOption list"
  | OAuthSSEClient string OAuthConfig "ClientOption list"
  | OAuthStreamableHttpClient string OAuthConfig "ClientOption list"

record InitializeRequest =
  ProtocolVersion :: string
  ClientInfo :: "string \<times> string"

record CallToolRequest =
  Name :: string
  Arguments :: "(string \<times> json) list"

text \<open>The OAuth handler of the MCP library, by what its methods return.\<close>

record OAuthHandler =
  GetClientID :: string
  RegisterClient :: "string \<Rightarrow> error option"
  GetAuthorizationURL :: "string \<Rightarrow> string \<Rightarrow> error + string"
  ProcessAuthorizationResponse :: "string \<Rightarrow> string \<Rightarrow> string \<Rightarrow> error option"

text \<open>
  The world outside the program is a parameter: what the library's constructors and
  the methods of a client return, the listener of the callback server, the library's
  OAuth primitives, the line read from standard input, and the request that reaches
  the callback server. A method of a client answers by the client and by the number
  of sessions run on this client before: the OAuth client runs a session before the
  authorization flow and one after it. \<open>url_Parse_Query\<close> is \<open>url.Parse\<close> followed
  by \<open>Query\<close>; \<open>callback_request\<close> is the query of the request to
  \<open>/oauth/callback\<close>, or the error of the context when none arrives in time. What
  the program prints, and the browser it starts, are not part of the model.
\<close>

record world =
  NewClient_error :: "compatibleClient \<Rightarrow> error option"
  Start :: "compatibleClient \<Rightarrow> nat \<Rightarrow> error option"
  Initialize :: "compatibleClient \<Rightarrow> nat \<Rightarrow> InitializeRequest \<Rightarrow> error option"
  CallTool :: "compatibleClient \<Rightarrow> nat \<Rightarrow> CallToolRequest \<Rightarrow> error + json"
  LATEST_PROTOCOL_VERSION :: string
  net_Listen :: "error + string"
  GetOAuthHandler :: "error \<Rightarrow> OAuthHandler option"
  GenerateCodeVerifier :: "error + string"
  GenerateState :: "error + string"
  GenerateCodeChallenge :: "string \<Rightarrow> string"
  stdin_ReadString :: "error + string"
  url_Parse_Query :: "string \<Rightarrow> error + (string \<times> string list) list"
  callback_request :: "error + (string \<times> string list) list"

type_synonym 'r operation = "compatibleClient \<Rightarrow> nat \<Rightarrow> error + 'r"

text \<open>\<open>newClient\<close> (the release action closes the client and is not modelled).\<close>

definition newClient :: "world \<Rightarrow> MCPServer \<Rightarrow> error + compatibleClient" where
  "newClient w s =
     (if MCPServer.Transport s = ''sse'' then
        (let headers = MCPServer.Headers s;
             opts = (if length headers > 0 then [WithHeaders headers] else []);
             c = SSEMCPClient (MCPServer.URL s) opts
         in case NewClient_error w c of Some err \<Rightarrow> Inl err | None \<Rightarrow> Inr c)
      else
        (let headers = MCPServer.Headers s;
             opts = (if length headers > 0 then [WithHTTPHeaders headers] else []);
             c = StreamableHttpClient (MCPServer.URL s) opts
         in case NewClient_error w c of Some err \<Rightarrow> Inl err | None \<Rightarrow> Inr c))"

definition newOAuthClient :: "world \<Rightarrow> MCPServer \<Rightarrow> OAuthConfig \<Rightarrow> error + compatibleClient" where
  "newOAuthClient w s oauthConfig =
     (if MCPServer.Transport s = ''sse'' then
        (let opts = (if length (MCPServer.Headers s) > 0 then [WithHeaders (MCPServer.Headers s)] else []);
             cli = OAuthSSEClient (MCPServer.URL s) oauthConfig opts
         in case NewClient_error w cli of Some err \<Rightarrow> Inl err | None \<Rightarrow> Inr cli)
      else
        (let opts = (if length (MCPServer.Headers s) > 0 then [WithHTTPHeaders (MCPServer.Headers s)] else []);
             cli = OAuthStreamableHttpClient (MCPServer.URL s) oauthConfig opts
         in case NewClient_error w cli of Some err \<Rightarrow> Inl err | None \<Rightarrow> Inr cli))"

definition runOperationWithClient ::
  "world \<Rightarrow> compatibleClient \<Rightarrow> nat \<Rightarrow> 'r operation \<Rightarrow> error + 'r" where
  "runOperationWithClient w client n operation =
     (case Start w client n of
        Some err \<Rightarrow> Inl err
      | None \<Rightarrow>
          (case Initialize w client n
                  \<lparr>ProtocolVersion = LATEST_PROTOCOL_VERSION w, ClientInfo = (''mcpshimd'', ''dev'')\<rparr> of
             Some err \<Rightarrow> Inl err
           | None \<Rightarrow> operation client n))"

definition runOperation :: "world \<Rightarrow> MCPServer \<Rightarrow> 'r operation \<Rightarrow> error + 'r" where
  "runOperation w s operation =
     (case newClient w s of
        Inl err \<Rightarrow> Inl err
      | Inr client \<Rightarrow> runOperationWithClient w client 0 operation)"

definition shouldTryOAuthFallback :: "MCPServer \<Rightarrow> error option \<Rightarrow> bool" where
  "shouldTryOAuthFallback s err =
     (case err of
        None \<Rightarrow> False
      | Some e \<Rightarrow>
          if MCPServer.Transport s = ''stdio'' then False
          else if hasAuthorizationHeader (MCPServer.Headers s) then False
          else errors_Is e Unauthorized)"

definition IsOAuthAuthorizationRequiredError :: "error \<Rightarrow> bool" where
  "IsOAuthAuthorizationRequiredError err = errors_Is err AuthorizationRequired"

text \<open>
  The callback server, by its redirect URI. Its handler and \<open>readManualOAuthInput\<close>
  keep the first value of each query parameter; \<open>param\<close> reads a Go map of strings,
  which gives the empty string for a missing key.
\<close>

record oauthCallbackServer =
  redirectURI :: string

definition startOAuthCallbackServer :: "world \<Rightarrow> error + oauthCallbackServer" where
  "startOAuthCallbackServer w =
     (case net_Listen w of
        Inl err \<Rightarrow> Inl err
      | Inr addr \<Rightarrow> Inr \<lparr>redirectURI = ''http://'' @ addr @ ''/oauth/callback''\<rparr>)"

definition firstValues :: "(string \<times> string list) list \<Rightarrow> (string \<times> string) list" where
  "firstValues query =
     concat (map (\<lambda>(key, all). case all of [] \<Rightarrow> [] | v # rest \<Rightarrow> [(key, v)]) query)"

definition param :: "(string \<times> string) list \<Rightarrow> string \<Rightarrow> string" where
  "param params key = (case map_of params key of None \<Rightarrow> [] | Some v \<Rightarrow> v)"

definition wait :: "world \<Rightarrow> oauthCallbackServer \<Rightarrow> error + (string \<times> string) list" where
  "wait w callback =
     (case callback_request w of
        Inl err \<Rightarrow> Inl err
      | Inr query \<Rightarrow> Inr (firstValues query))"

definition readManualOAuthInput :: "world \<Rightarrow> string \<Rightarrow> error + (string \<times> string) list" where
  "readManualOAuthInput w expectedState =
     (case stdin_ReadString w of
        Inl err \<Rightarrow> Inl err
      | Inr line0 \<Rightarrow>
          (let line = TrimSpace line0 in
           if line = [] then Inl (Err Plain ''empty input'')
           else if Contains line ''://'' then
             (case url_Parse_Query w line of
                Inl err \<Rightarrow> Inl err
              | Inr query \<Rightarrow>
                  (let params = firstValues query in
                   if param params ''state'' \<noteq> [] \<and> param params ''state'' \<noteq> expectedState
                   then Inl (Err Plain ''oauth state mismatch'')
                   else Inr params))
           else Inr [(''code'', line)]))"

text \<open>\<open>completeOAuthFlow\<close> returns its error; \<open>None\<close> is nil.\<close>

definition completeOAuthFlow ::
  "world \<Rightarrow> error \<Rightarrow> oauthCallbackServer option \<Rightarrow> bool \<Rightarrow> error option" where
  "completeOAuthFlow w authErr callback manual =
     (case GetOAuthHandler w authErr of
        None \<Rightarrow> Some authErr
      | Some oauthHandler \<Rightarrow>
     (case GenerateCodeVerifier w of
        Inl err \<Rightarrow> Some err
      | Inr codeVerifier \<Rightarrow>
     (case GenerateState w of
        Inl err \<Rightarrow> Some err
      | Inr state \<Rightarrow>
     (let codeChallenge = GenerateCodeChallenge w codeVerifier in
      case (if GetClientID oauthHandler = [] then RegisterClient oauthHandler ''mcpshim'' else None) of
        Some err \<Rightarrow> Some err
      | None \<Rightarrow>
     (case GetAuthorizationURL oauthHandler state codeChallenge of
        Inl err \<Rightarrow> Some err
      | Inr authURL \<Rightarrow>
          if manual then
            (case readManualOAuthInput w state of
               Inl err \<Rightarrow> Some err
             | Inr params \<Rightarrow>
                 if param params ''code'' \<noteq> [] then
                   ProcessAuthorizationResponse oauthHandler (param params ''code'') state codeVerifier
                 else if param params ''error'' \<noteq> [] then
                   Some (Err Plain (''oauth authorization failed: '' @ param params ''error''))
                 else Some (Err Plain ''oauth authorization did not return a code''))
          else
            (case callback of
               None \<Rightarrow> Some (Err Plain ''oauth callback server is not available'')
             | Some cb \<Rightarrow>
                 (case wait w cb of
                    Inl err \<Rightarrow> Some err
                  | Inr params \<Rightarrow>
                      if param params ''state'' \<noteq> state then Some (Err Plain ''oauth state mismatch'')
                      else if param params ''code'' \<noteq> [] then
                        ProcessAuthorizationResponse oauthHandler (param params ''code'') state
                          codeVerifier
                      else if param params ''error'' \<noteq> [] then
                        Some (Err Plain (''oauth authorization failed: '' @ param params ''error''))
                      else Some (Err Plain ''oauth authorization did not return a code''))))))))"

text \<open>
  \<open>runWithOAuthFallback\<close>. \<open>retryWithOAuth\<close> is the part of its body after the first
  return: the callback server, the OAuth client, the second attempt, the
  authorization flow and the third attempt.
\<close>

definition retryWithOAuth :: "world \<Rightarrow> MCPServer \<Rightarrow> bool \<Rightarrow> 'r operation \<Rightarrow> error + 'r" where
  "retryWithOAuth w s interactive operation =
     (case (if interactive
            then (case startOAuthCallbackServer w of Inl err \<Rightarrow> Inl err | Inr cb \<Rightarrow> Inr (Some cb))
            else Inr None) of
        Inl err \<Rightarrow> Inl err
      | Inr callback \<Rightarrow>
     (case newOAuthClient w s
             \<lparr>RedirectURI = (case callback of
                               Some cb \<Rightarrow> redirectURI cb
                             | None \<Rightarrow> ''http://127.0.0.1:53685/oauth/callback''),
              TokenStore = MCPServer.Name s,
              PKCEEnabled = True\<rparr> of
        Inl err \<Rightarrow> Inl err
      | Inr oauthClient \<Rightarrow>
     (case runOperationWithClient w oauthClient 0 operation of
        Inr result \<Rightarrow> Inr result
      | Inl err \<Rightarrow>
          if \<not> IsOAuthAuthorizationRequiredError err then Inl err
          else if \<not> interactive then
            Inl (Err Plain (''server '' @ quote (MCPServer.Name s)
                   @ '' requires oauth authorization; run a direct command like mcpshim tools --server ''
                   @ MCPServer.Name s @ '' to complete login''))
          else if callback = None then Inl (Err Plain ''oauth callback server is not available'')
          else
            (case completeOAuthFlow w err callback False of
               Some err' \<Rightarrow> Inl err'
             | None \<Rightarrow> runOperationWithClient w oauthClient 1 operation))))"

definition runWithOAuthFallback :: "world \<Rightarrow> MCPServer \<Rightarrow> bool \<Rightarrow> 'r operation \<Rightarrow> error + 'r" where
  "runWithOAuthFallback w s interactive operation =
     (case runOperation w s operation of
        Inr result \<Rightarrow> Inr result
      | Inl err \<Rightarrow>
          if \<not> shouldTryOAuthFallback s (Some err) then Inl err
          else retryWithOAuth w s interactive operation)"

definition runOAuthLogin :: "world \<Rightarrow> MCPServer \<Rightarrow> bool \<Rightarrow> error option" where
  "runOAuthLogin w s manual =
     (case (if \<not> manual
            then (case startOAuthCallbackServer w of Inl err \<Rightarrow> Inl err | Inr cb \<Rightarrow> Inr (Some cb))
            else Inr None) of
        Inl err \<Rightarrow> Some err
      | Inr callback \<Rightarrow>
     (case newOAuthClient w s
             \<lparr>RedirectURI = (case callback of
                               Some cb \<Rightarrow> redirectURI cb
                             | None \<Rightarrow> ''http://127.0.0.1:53685/oauth/callback''),
              TokenStore = MCPServer.Name s,
              PKCEEnabled = True\<rparr> of
        Inl err \<Rightarrow> Some err
      | Inr oauthClient \<Rightarrow>
     (case runOperationWithClient w oauthClient 0 (\<lambda>cli n. Inr ()) of
        Inr done \<Rightarrow> None
      | Inl err \<Rightarrow>
          if \<not> IsOAuthAuthorizationRequiredError err then Some err
          else completeOAuthFlow w err callback manual)))"

text \<open>
  The methods \<open>Call\<close> and \<open>Login\<close> of the registry, on its configuration. A nil map of
  arguments is the empty list already.
\<close>

definition Registry_Call ::
  "world \<Rightarrow> Config \<Rightarrow> string \<Rightarrow> string \<Rightarrow> (string \<times> json) list \<Rightarrow> error + json" where
  "Registry_Call w cfg server tool args =
     (case findServer cfg server of
        None \<Rightarrow> Inl (Err Plain (''unknown server '' @ quote server))
      | Some s \<Rightarrow>
          runWithOAuthFallback w s True
            (\<lambda>cli n. CallTool w cli n \<lparr>CallToolRequest.Name = tool, Arguments = args\<rparr>))"

definition Registry_Login :: "world \<Rightarrow> Config \<Rightarrow> string \<Rightarrow> bool \<Rightarrow> error option" where
  "Registry_Login w cfg server manual =
     (case findServer cfg server of
        None \<Rightarrow> Some (Err Plain (''unknown server '' @ quote server))
      | Some s \<Rightarrow> runOAuthLogin w s manual)"

section \<open>The request router (internal/server/server.go)\<close>

text \<open>
  Modelled from the spec: the fields \<open>Command\<close> and \<open>Env\<close> of a request, which
  \<open>Server.handle\<close> reads and the declaration of the type in
  internal/protocol/protocol.go does not have. The spec gives the request shape as
  action, name, server, tool, limit, alias, url, transport, headers, command, env and
  args, each but the action optional.
\<close>

record Request =
  Action :: string
  Name :: string
  Server :: string
  Tool :: string
  Limit :: int
  Alias :: string
  URL :: string
  Transport :: string
  Headers :: headers
  Command :: "string list"
  Env :: "string list"
  Args :: "(string \<times> json) list"

text \<open>
  A response. The fields \<open>Status\<close>, \<open>Servers\<close>, \<open>Tools\<close> and \<open>ToolDetail\<close> stay
  empty in the actions modelled here and are left out.
\<close>

record Response =
  OK :: bool
  Error :: string
  History :: "HistoryItem list"
  Result :: "json option"
  Text :: string

text \<open>
  The server: the path of its configuration file, its configuration and its store.
  The registry holds the same configuration pointer as the server, so the model has
  the configuration once; the registry's cache of tool names is not part of the model,
  and with it the calls of \<open>UpdateConfig\<close> and \<open>Refresh\<close>, which empty and refill it.
  \<open>Run\<close> opens the store before it accepts a request, so a handler always has one.
\<close>

record Server =
  configPath :: string
  cfg :: Config
  store :: Store

definition errorResponse :: "string \<Rightarrow> Response" where
  "errorResponse msg = \<lparr>OK = False, Error = msg, History = [], Result = None, Text = []\<rparr>"

text \<open>
  \<open>Time.Sub\<close> gives the difference of two instants as a \<open>Duration\<close>, a signed 64-bit
  count of nanoseconds, and saturates. \<open>quot\<close> is the integer division of Go, which
  truncates toward zero. \<open>time.Now().UTC()\<close> holds no monotonic clock reading, so
  \<open>time.Since\<close> subtracts wall clock readings.
\<close>

definition time_Sub :: "int \<Rightarrow> int \<Rightarrow> int" where
  "time_Sub t u =
     (if t - u > 9223372036854775807 then 9223372036854775807
      else if t - u < - 9223372036854775808 then - 9223372036854775808
      else t - u)"

definition quot :: "int \<Rightarrow> int \<Rightarrow> int" where
  "quot a b = sgn a * sgn b * (\<bar>a\<bar> div \<bar>b\<bar>)"

text \<open>
  The case \<open>"call"\<close> of \<open>Server.handle\<close>. \<open>started\<close> is the reading of the clock at
  \<open>time.Now()\<close>, \<open>finished\<close> its reading in \<open>time.Since\<close>. The result is the
  response and the server with the store the call leaves.
\<close>

definition handle_call ::
  "world \<Rightarrow> int \<Rightarrow> int \<Rightarrow> Server \<Rightarrow> Request \<Rightarrow> Response \<times> Server" where
  "handle_call w started finished s req =
     (if Request.Server req = [] \<or> Request.Tool req = [] then
        (errorResponse ''server and tool are required'', s)
      else
        (let r = Registry_Call w (cfg s) (Request.Server req) (Request.Tool req) (Request.Args req);
             historyItem =
               \<lparr>At = started,
                HistoryItem.Server = Request.Server req,
                HistoryItem.Tool = Request.Tool req,
                HistoryItem.Args = Request.Args req,
                Success = (case r of Inl err \<Rightarrow> False | Inr result \<Rightarrow> True),
                HistoryItem.Error = (case r of Inl err \<Rightarrow> errorString err | Inr result \<Rightarrow> []),
                DurationMs = quot (time_Sub finished started) 1000000\<rparr>;
             s' = s\<lparr>store := snd (InsertHistory (store s) historyItem)\<rparr>
         in case r of
              Inl err \<Rightarrow> (errorResponse (errorString err), s')
            | Inr result \<Rightarrow>
                (\<lparr>OK = True, Error = [], History = [], Result = Some result, Text = []\<rparr>, s')))"

text \<open>The case \<open>"history"\<close>; \<open>now\<close> is the current time.\<close>

definition handle_history :: "int \<Rightarrow> Server \<Rightarrow> Request \<Rightarrow> Response" where
  "handle_history now s req =
     (let limit = (if Limit req \<le> 0 then 50 else Limit req) in
      case ListHistory now (store s) (Request.Server req) (Request.Tool req) limit of
        Inl err \<Rightarrow> errorResponse (errorString err)
      | Inr items \<Rightarrow> \<lparr>OK = True, Error = [], History = items, Result = None, Text = []\<rparr>)"

text \<open>
  The case \<open>"add_server"\<close>. \<open>UpsertServer\<close> changes the configuration in place, so
  the server keeps the new configuration also when \<open>Save\<close> fails. The result is the
  response, the server and the file system.
\<close>

definition handle_add_server ::
  "platform \<Rightarrow> filesystem \<Rightarrow> Server \<Rightarrow> Request \<Rightarrow> Response \<times> Server \<times> filesystem" where
  "handle_add_server os fs s req =
     (if Request.Name req = [] then (errorResponse ''name is required'', s, fs)
      else
        (let transport = ToLower (TrimSpace (Request.Transport req)) in
         if transport = ''stdio'' \<and> length (Request.Command req) = 0 then
           (errorResponse ''command is required for stdio transport'', s, fs)
         else if transport \<noteq> ''stdio'' \<and> Request.URL req = [] then
           (errorResponse ''url is required for http/sse transport'', s, fs)
         else
           (let item = \<lparr>MCPServer.Name = Request.Name req,
                        MCPServer.Alias = Request.Alias req,
                        MCPServer.URL = Request.URL req,
                        MCPServer.Transport = transport,
                        MCPServer.Headers = Request.Headers req,
                        MCPServer.Command = Request.Command req,
                        MCPServer.Env = Request.Env req\<rparr>;
                s' = s\<lparr>cfg := UpsertServer (cfg s) item\<rparr>
            in case Save os fs (configPath s) (Some (cfg s')) of
                 (Some err, fs') \<Rightarrow> (errorResponse (errorString err), s', fs')
               | (None, fs') \<Rightarrow>
                   (\<lparr>OK = True, Error = [], History = [], Result = None,
                     Text = ''added server '' @ Request.Name req\<rparr>, s', fs'))))"

section \<open>The configuration round trip, in the words of the spec\<close>

text \<open>
  The transport as \<open>normalizeTransport\<close> gives it, and the string itself where
  \<open>normalizeTransport\<close> rejects it.
\<close>

definition normalizedTransport :: "string \<Rightarrow> string" where
  "normalizedTransport v = (case normalizeTransport v of Inl err \<Rightarrow> v | Inr t \<Rightarrow> t)"

text \<open>
  The configuration "after alias defaulting and transport normalization", in the words
  of the spec's round trip property.
\<close>

definition spec_normalizedServer :: "MCPServer \<Rightarrow> MCPServer" where
  "spec_normalizedServer s =
     s\<lparr>MCPServer.Transport := normalizedTransport (MCPServer.Transport s),
       MCPServer.Alias := (if MCPServer.Alias s = [] then MCPServer.Name s else MCPServer.Alias s)\<rparr>"

definition spec_normalized :: "Config \<Rightarrow> Config" where
  "spec_normalized conf = conf\<lparr>Servers := map spec_normalizedServer (Servers conf)\<rparr>"

text \<open>
  The configuration after what the spec says of loading besides: the strings url,
  headers, command and env undergo the expansion of \<open>$VAR\<close> and \<open>${VAR}\<close>, and a
  socket path or database path left empty gets its default.
\<close>

definition spec_expandedServer :: "platform \<Rightarrow> MCPServer \<Rightarrow> MCPServer" where
  "spec_expandedServer os s =
     s\<lparr>MCPServer.URL := ExpandEnv os (MCPServer.URL s),
       MCPServer.Headers := map (\<lambda>(k, v). (k, ExpandEnv os v)) (MCPServer.Headers s),
       MCPServer.Command := map (ExpandEnv os) (MCPServer.Command s),
       MCPServer.Env := map (ExpandEnv os) (MCPServer.Env s)\<rparr>"

definition spec_expanded :: "platform \<Rightarrow> Config \<Rightarrow> Config" where
  "spec_expanded os conf =
     \<lparr>Config.Server =
        \<lparr>SocketPath = (if SocketPath (Config.Server conf) = [] then DefaultSocketPath os
                        else SocketPath (Config.Server conf)),
         DBPath = (if DBPath (Config.Server conf) = [] then DefaultDBPath os
                    else DBPath (Config.Server conf))\<rparr>,
      Servers = map (spec_expandedServer os) (Servers conf)\<rparr>"

text \<open>A server none of whose expanded strings holds a dollar sign.\<close>

definition dollarFreeServer :: "MCPServer \<Rightarrow> bool" where
  "dollarFreeServer s =
     (CHR ''$'' \<notin> set (MCPServer.URL s)
      \<and> list_all (\<lambda>(k, v). CHR ''$'' \<notin> set v) (MCPServer.Headers s)
      \<and> list_all (\<lambda>v. CHR ''$'' \<notin> set v) (MCPServer.Command s)
      \<and> list_all (\<lambda>v. CHR ''$'' \<notin> set v) (MCPServer.Env s))"

section \<open>Concrete inputs\<close>

text \<open>
  The schema of the first scenario, as \<open>json.Marshal\<close> renders the Go map (keys in
  order): required is query; the properties are query, limit and filter.
\<close>

definition scenarioSchema :: go_value where
  "scenarioSchema =
     Marshals (JObject
       [(''properties'', JObject
           [(''filter'', JObject [(''type'', JString ''string'')]),
            (''limit'', JObject [(''type'', JString ''integer'')]),
            (''query'', JObject [(''type'', JString ''string'')])]),
        (''required'', JArray [JString ''query''])])"

text \<open>The schema of the second scenario: query and limit, each with a description.\<close>

definition detailScenarioSchema :: go_value where
  "detailScenarioSchema =
     Marshals (JObject
       [(''properties'', JObject
           [(''limit'', JObject [(''description'', JString ''Max results''),
                                 (''type'', JString ''integer'')]),
            (''query'', JObject [(''description'', JString ''Search query''),
                                 (''type'', JString ''string'')])])])"

text \<open>
  A store with two recorded calls, the request \<open>history\<close> for the server notion with
  no limit given, and a server that holds the store.
\<close>

definition twoCalls :: Store where
  "twoCalls =
     \<lparr>call_history =
        [\<lparr>row_id = 1, row_at_utc = AtText 100, row_server = ''notion'', row_tool = ''search'',
          row_args_json = ArgsEmpty, row_success = 1, row_error = Some [], row_duration_ms = 7\<rparr>,
         \<lparr>row_id = 2, row_at_utc = AtText 200, row_server = ''notion'', row_tool = ''fetch'',
          row_args_json = ArgsEmpty, row_success = 0, row_error = Some ''boom'', row_duration_ms = 9\<rparr>],
      sequence = 2,
      db_error = None\<rparr>"

definition historyRequest :: Request where
  "historyRequest =
     \<lparr>Action = ''history'', Request.Name = [], Request.Server = ''notion'', Request.Tool = [],
      Limit = 0, Alias = [], URL = [], Transport = [], Headers = [], Command = [], Env = [],
      Request.Args = []\<rparr>"

definition historyServer :: Server where
  "historyServer =
     \<lparr>configPath = ''/etc/mcpshim.yaml'',
      cfg = \<lparr>Config.Server = \<lparr>SocketPath = ''/run/mcpshim.sock'', DBPath = ''/var/mcpshim.db''\<rparr>,
             Servers = []\<rparr>,
      store = twoCalls\<rparr>"

text \<open>
  A world in which every constructor and every method of a client succeeds, the server
  notion, a daemon that has it configured, and two \<open>call\<close> requests, the second
  without a tool.
\<close>

definition quietWorld :: world where
  "quietWorld =
     \<lparr>NewClient_error = (\<lambda>c. None),
      Start = (\<lambda>c n. None),
      Initialize = (\<lambda>c n r. None),
      CallTool = (\<lambda>c n r. Inr (JString ''done'')),
      LATEST_PROTOCOL_VERSION = ''2025-06-18'',
      net_Listen = Inr ''127.0.0.1:40404'',
      GetOAuthHandler = (\<lambda>e. None),
      GenerateCodeVerifier = Inr ''verifier'',
      GenerateState = Inr ''st'',
      GenerateCodeChallenge = (\<lambda>v. v),
      stdin_ReadString = Inl (Err Plain ''EOF''),
      url_Parse_Query = (\<lambda>line. Inr []),
      callback_request = Inl (Err Plain ''context deadline exceeded'')\<rparr>"

definition notion :: MCPServer where
  "notion =
     \<lparr>MCPServer.Name = ''notion'', MCPServer.Alias = ''notion'',
      MCPServer.URL = ''https://mcp.notion.com/mcp'', MCPServer.Transport = ''http'',
      MCPServer.Headers = [], MCPServer.Command = [], MCPServer.Env = []\<rparr>"

definition notionDaemon :: Server where
  "notionDaemon =
     \<lparr>configPath = ''/etc/mcpshim.yaml'',
      cfg = \<lparr>Config.Server = \<lparr>SocketPath = ''/run/mcpshim.sock'', DBPath = ''/var/mcpshim.db''\<rparr>,
             Servers = [notion]\<rparr>,
      store = twoCalls\<rparr>"

definition callRequest :: Request where
  "callRequest =
     \<lparr>Action = ''call'', Request.Name = [], Request.Server = ''notion'', Request.Tool = ''search'',
      Limit = 0, Alias = [], URL = [], Transport = [], Headers = [], Command = [], Env = [],
      Request.Args = [(''query'', JString ''roadmap'')]\<rparr>"

definition callRequestNoTool :: Request where
  "callRequestNoTool =
     \<lparr>Action = ''call'', Request.Name = [], Request.Server = ''notion'', Request.Tool = [],
      Limit = 0, Alias = [], URL = [], Transport = [], Headers = [], Command = [], Env = [],
      Request.Args = [(''query'', JString ''roadmap'')]\<rparr>"

text \<open>
  A world in which a client without OAuth is answered with the unauthorized sentinel
  and an OAuth client succeeds; a call of the tool search; the server notion with an
  authorization header of its own. An OAuth handler, the error that asks for
  authorization, a callback server, and two worlds for the authorization flow: one
  whose callback brings a code together with an error parameter, one whose callback
  brings an error parameter only.
\<close>

definition unauthorizedWorld :: world where
  "unauthorizedWorld =
     quietWorld\<lparr>CallTool :=
       (\<lambda>c n r. case c of
                   OAuthSSEClient u oc opts \<Rightarrow> Inr (JString ''done'')
                 | OAuthStreamableHttpClient u oc opts \<Rightarrow> Inr (JString ''done'')
                 | _ \<Rightarrow> Inl (Err Unauthorized ''unauthorized (401)''))\<rparr>"

definition searchCall :: "world \<Rightarrow> json operation" where
  "searchCall w = (\<lambda>cli n. CallTool w cli n \<lparr>CallToolRequest.Name = ''search'', Arguments = []\<rparr>)"

definition notionWithToken :: MCPServer where
  "notionWithToken = notion\<lparr>MCPServer.Headers := [(''authorization'', ''Bearer abc'')]\<rparr>"

definition authorizationHandler :: OAuthHandler where
  "authorizationHandler =
     \<lparr>GetClientID = ''client-1'',
      RegisterClient = (\<lambda>name. None),
      GetAuthorizationURL = (\<lambda>state challenge. Inr (''https://auth.example/authorize?state='' @ state)),
      ProcessAuthorizationResponse =
        (\<lambda>code state verifier.
           if code = ''xyz'' \<and> state = ''st'' \<and> verifier = ''verifier'' then None
           else Some (Err Plain ''invalid_grant''))\<rparr>"

definition authorizationRequired :: error where
  "authorizationRequired = Err AuthorizationRequired ''no valid token available, authorization required''"

definition codeAndErrorWorld :: world where
  "codeAndErrorWorld =
     quietWorld\<lparr>GetOAuthHandler := (\<lambda>e. Some authorizationHandler),
                callback_request :=
                  Inr [(''code'', [''xyz'']), (''error'', [''access_denied'']), (''state'', [''st''])]\<rparr>"

definition deniedWorld :: world where
  "deniedWorld =
     quietWorld\<lparr>GetOAuthHandler := (\<lambda>e. Some authorizationHandler),
                callback_request := Inr [(''error'', [''access_denied'']), (''state'', [''st''])]\<rparr>"

definition loopback :: oauthCallbackServer where
  "loopback = \<lparr>redirectURI = ''http://127.0.0.1:40404/oauth/callback''\<rparr>"

text \<open>
  A platform with no environment variable set and a file system with no file; a
  configuration whose url holds \<open>$TEAM\<close>, and one with an empty alias and the
  transport written \<open>" Streamable-HTTP"\<close>.
\<close>

definition bare :: platform where
  "bare = \<lparr>Getenv = (\<lambda>name. []), Getuid = 1000,
           filepath_Join = (\<lambda>parts. concat (map (\<lambda>p. ''/'' @ p) parts))\<rparr>"

definition emptyDisk :: filesystem where
  "emptyDisk = \<lparr>files = [], MkdirAll_error = [], WriteFile_error = [], Rename_error = []\<rparr>"

definition teamConfig :: Config where
  "teamConfig =
     \<lparr>Config.Server = \<lparr>SocketPath = ''/run/mcpshim.sock'', DBPath = ''/var/mcpshim.db''\<rparr>,
      Servers = [notion\<lparr>MCPServer.URL := ''https://mcp.notion.com/$TEAM/mcp''\<rparr>]\<rparr>"

definition plainConfig :: Config where
  "plainConfig =
     \<lparr>Config.Server = \<lparr>SocketPath = ''/run/mcpshim.sock'', DBPath = ''/var/mcpshim.db''\<rparr>,
      Servers = [notion\<lparr>MCPServer.Alias := [], MCPServer.Transport := '' Streamable-HTTP''\<rparr>]\<rparr>"

text \<open>
  Two \<open>add_server\<close> requests with the transport \<open>" WebSocket "\<close>, the second with
  the alias of the server notion, and the server that the first request registers.
\<close>

definition websocketRequest :: Request where
  "websocketRequest =
     \<lparr>Action = ''add_server'', Request.Name = ''linear'', Request.Server = [], Request.Tool = [],
      Limit = 0, Alias = [], URL = ''https://mcp.linear.app/mcp'', Transport = '' WebSocket '',
      Headers = [], Command = [], Env = [], Request.Args = []\<rparr>"

definition aliasTakenRequest :: Request where
  "aliasTakenRequest = websocketRequest\<lparr>Alias := ''notion''\<rparr>"

definition linear :: MCPServer where
  "linear =
     \<lparr>MCPServer.Name = ''linear'', MCPServer.Alias = ''linear'',
      MCPServer.URL = ''https://mcp.linear.app/mcp'', MCPServer.Transport = ''http'',
      MCPServer.Headers = [], MCPServer.Command = [], MCPServer.Env = []\<rparr>"

text \<open>
  The servers of the tests \<open>TestNewClientRejectsEmptyCommand\<close> and
  \<open>TestLoginRejectsStdioServer\<close>, the configuration of the latter, and a world in
  which no session starts.
\<close>

definition emptyCommandServer :: MCPServer where
  "emptyCommandServer =
     \<lparr>MCPServer.Name = ''empty'', MCPServer.Alias = [], MCPServer.URL = [],
      MCPServer.Transport = ''stdio'', MCPServer.Headers = [], MCPServer.Command = [],
      MCPServer.Env = []\<rparr>"

definition localServer :: MCPServer where
  "localServer =
     \<lparr>MCPServer.Name = ''local'', MCPServer.Alias = [], MCPServer.URL = [],
      MCPServer.Transport = ''stdio'', MCPServer.Headers = [], MCPServer.Command = [''echo''],
      MCPServer.Env = []\<rparr>"

definition localConfig :: Config where
  "localConfig = \<lparr>Config.Server = \<lparr>SocketPath = [], DBPath = []\<rparr>, Servers = [localServer]\<rparr>"

definition refusedWorld :: world where
  "refusedWorld = quietWorld\<lparr>Start := (\<lambda>c n. Some (Err Plain ''dial tcp: connection refused''))\<rparr>"

section \<open>Properties of parseSchema and parseSchemaDetail\<close>

lemma distinct_fold_update:
  "distinct (map fst ps) \<Longrightarrow> distinct (map fst (fold (\<lambda>(k, x). AList.update k x) ms ps))"
  by (induction ms arbitrary: ps) (auto simp: distinct_update)

lemma unmarshalInputSchemaFields_distinct:
  "unmarshalInputSchemaFields ms (r, ps) = Some (r', ps') \<Longrightarrow> distinct (map fst ps)
     \<Longrightarrow> distinct (map fst ps')"
proof (induction ms "(r, ps)" arbitrary: r ps rule: unmarshalInputSchemaFields.induct)
  case 1
  then show ?case by simp
next
  case (2 key v rest required properties)
  then show ?case
    by (auto split: if_splits option.splits json.splits simp: distinct_fold_update)
qed

lemma unmarshalInputSchema_distinct:
  "unmarshalInputSchema b = Some (r, ps) \<Longrightarrow> distinct (map fst ps)"
  by (auto simp: unmarshalInputSchema_def split: json.splits
      dest: unmarshalInputSchemaFields_distinct)

lemma parseSchema_cases:
  "parseSchema schema = ([], []) \<or>
   (\<exists>b r ps. json_Marshal schema = Inr b \<and> unmarshalInputSchema b = Some (r, ps)
      \<and> parseSchema schema = (r, sort (map fst ps)))"
  by (auto simp: parseSchema_def split: sum.splits option.splits)

lemma parseSchema_scenario:
  "parseSchema scenarioSchema = ([''query''], [''filter'', ''limit'', ''query''])"
  by code_simp


lemma unmarshalPropEntries_distinct:
  "unmarshalPropEntries ms ps = Some ps' \<Longrightarrow> distinct (map fst ps) \<Longrightarrow> distinct (map fst ps')"
  by (induction ms ps rule: unmarshalPropEntries.induct)
     (auto split: option.splits simp: distinct_update)

lemma unmarshalInputSchemaDetailFields_distinct:
  "unmarshalInputSchemaDetailFields ms ps = Some ps' \<Longrightarrow> distinct (map fst ps)
     \<Longrightarrow> distinct (map fst ps')"
  by (induction ms ps rule: unmarshalInputSchemaDetailFields.induct)
     (auto split: if_splits option.splits json.splits dest: unmarshalPropEntries_distinct)

lemma unmarshalInputSchemaDetail_distinct:
  "unmarshalInputSchemaDetail b = Some ps \<Longrightarrow> distinct (map fst ps)"
  by (auto simp: unmarshalInputSchemaDetail_def split: json.splits
      dest: unmarshalInputSchemaDetailFields_distinct)

lemma parseSchemaDetail_names:
  "map PropertyDetail.Name (parseSchemaDetail schema requiredList) = [] \<or>
   (\<exists>b ps. json_Marshal schema = Inr b \<and> unmarshalInputSchemaDetail b = Some ps \<and>
      map PropertyDetail.Name (parseSchemaDetail schema requiredList) = sort (map fst ps))"
  by (auto simp: parseSchemaDetail_def Let_def comp_def split: sum.splits option.splits)

lemma parseSchemaDetail_required:
  "d \<in> set (parseSchemaDetail schema requiredList) \<Longrightarrow>
     PropertyDetail.Required d = (PropertyDetail.Name d \<in> set requiredList)"
  by (auto simp: parseSchemaDetail_def Let_def split: sum.splits option.splits)

lemma parseSchemaDetail_scenario:
  "parseSchemaDetail detailScenarioSchema [''query''] =
     [\<lparr>PropertyDetail.Name = ''limit'', Type = ''integer'', Enum = [], Const = [],
       Description = ''Max results'', Required = False\<rparr>,
      \<lparr>PropertyDetail.Name = ''query'', Type = ''string'', Enum = [], Const = [],
       Description = ''Search query'', Required = True\<rparr>]"
  by code_simp



section \<open>Properties of the call history\<close>

lemma reverseLoop_step:
  "left < right \<Longrightarrow>
     reverseLoop left right out =
       reverseLoop (left + 1) (right - 1) (out[nat left := out ! nat right, nat right := out ! nat left])"
  by (subst reverseLoop.simps) simp

lemma reverseLoop_stop: "\<not> left < right \<Longrightarrow> reverseLoop left right out = out"
  by (subst reverseLoop.simps) simp

lemma swap_ends:
  "(a @ (x # m2 @ [y]) @ b)[length a := (a @ (x # m2 @ [y]) @ b) ! (length a + Suc (length m2)),
       length a + Suc (length m2) := (a @ (x # m2 @ [y]) @ b) ! length a]
   = (a @ [y]) @ m2 @ ([x] @ b)"
  by (simp add: list_update_append nth_append)

lemma reverseLoop_segment:
  "reverseLoop (int (length a)) (int (length a + length m) - 1) (a @ m @ b) = a @ rev m @ b"
proof (induction "length m" arbitrary: a m b rule: less_induct)
  case less
  show ?case
  proof (cases m)
    case Nil
    then show ?thesis by (simp add: reverseLoop_stop)
  next
    case (Cons x m1)
    show ?thesis
    proof (cases m1 rule: rev_cases)
      case Nil
      with Cons show ?thesis by (simp add: reverseLoop_stop)
    next
      case (snoc m2 y)
      have m: "m = x # m2 @ [y]" using Cons snoc by simp
      have lt: "length m2 < length m" using m by simp
      have n1: "nat (int (length a)) = length a" by simp
      have n2: "nat (int (length a + length m) - 1) = length a + Suc (length m2)"
        using m by simp
      have "reverseLoop (int (length a)) (int (length a + length m) - 1) (a @ m @ b)
            = reverseLoop (int (length a) + 1) (int (length a + length m) - 1 - 1)
                ((a @ m @ b)[nat (int (length a)) := (a @ m @ b) ! nat (int (length a + length m) - 1),
                    nat (int (length a + length m) - 1) := (a @ m @ b) ! nat (int (length a))])"
        by (rule reverseLoop_step) (simp add: m)
      also have "\<dots> = reverseLoop (int (length a) + 1) (int (length a + length m) - 1 - 1)
                ((a @ [y]) @ m2 @ ([x] @ b))"
        unfolding n1 n2 unfolding m swap_ends ..
      also have "int (length a) + 1 = int (length (a @ [y]))" by simp
      also have "int (length a + length m) - 1 - 1 = int (length (a @ [y]) + length m2) - 1"
        using m by simp
      also have "reverseLoop (int (length (a @ [y]))) (int (length (a @ [y]) + length m2) - 1)
                   ((a @ [y]) @ m2 @ ([x] @ b)) = (a @ [y]) @ rev m2 @ ([x] @ b)"
        using less [OF lt] by blast
      finally show ?thesis using m by simp
    qed
  qed
qed

lemma reverseLoop_rev: "reverseLoop 0 (int (length out) - 1) out = rev out"
  using reverseLoop_segment [of "[]" out "[]"] by simp

lemma scanRows_no_null:
  "\<forall>r \<in> set rows. row_args_json r \<noteq> ArgsNull \<Longrightarrow> scanRows now rows = Inr (map (scanRow now) rows)"
  by (induction rows) auto

lemma rev_take_rev: "rev (take n (rev xs)) = drop (length xs - n) xs"
  by (simp add: rev_take)

lemma selectHistory_subset: "set (selectHistory s sf tf lim) \<subseteq> set (call_history s)"
  by (auto simp: selectHistory_def dest!: in_set_takeD)

lemma sorted_drop_sort_key: "sorted (map f (drop k (sort_key f xs)))"
  by (metis drop_map sorted_sort_key sorted_wrt_drop)

lemma ListHistory_rows:
  assumes "db_error s = None" and "\<forall>r \<in> set (call_history s). row_args_json r \<noteq> ArgsNull"
  shows "ListHistory now s sf tf limit =
           Inr (map (scanRow now) (rev (selectHistory s sf tf
                  (if limit \<le> 0 then 50 else if limit > 500 then 500 else limit))))"
proof -
  let ?L = "if limit \<le> 0 then 50 else if limit > 500 then 500 else limit"
  have "\<forall>r \<in> set (selectHistory s sf tf ?L). row_args_json r \<noteq> ArgsNull"
    using assms(2) selectHistory_subset by blast
  then have scan: "scanRows now (selectHistory s sf tf ?L) = Inr (map (scanRow now) (selectHistory s sf tf ?L))"
    by (rule scanRows_no_null)
  have "ListHistory now s sf tf limit =
          (case scanRows now (selectHistory s sf tf ?L) of
             Inl err \<Rightarrow> Inl err
           | Inr out \<Rightarrow> Inr (reverseLoop 0 (int (length out) - 1) out))"
    using assms(1) by (simp add: ListHistory_def Let_def)
  also have "\<dots> = Inr (rev (map (scanRow now) (selectHistory s sf tf ?L)))"
    unfolding scan by (simp only: sum.case reverseLoop_rev)
  finally show ?thesis by (simp only: rev_map)
qed

lemma handle_history_ListHistory:
  "handle_history now srv req =
     (case ListHistory now (store srv) (Request.Server req) (Request.Tool req) (Limit req) of
        Inl err \<Rightarrow> errorResponse (errorString err)
      | Inr items \<Rightarrow> \<lparr>OK = True, Error = [], History = items, Result = None, Text = []\<rparr>)"
  by (simp add: handle_history_def ListHistory_def Let_def)

text \<open>
  C3 (amended). When the database answers and no row has a NULL in \<open>args_json\<close>,
  the history request returns the most recent matching rows, as many as the limit
  allows, oldest first: the rows that match the filters, in ascending order of id, cut
  to the last \<open>L\<close> of them, where \<open>L\<close> is the requested limit clamped into 1 to
  500, and 50 when the requested limit is not positive.
\<close>

theorem history_latest_rows_oldest_first:
  assumes "db_error (store srv) = None"
    and "\<forall>r \<in> set (call_history (store srv)). row_args_json r \<noteq> ArgsNull"
  shows
    "let L = (if Limit req \<le> 0 then 50 else if Limit req > 500 then 500 else Limit req);
         matching = sort_key row_id
           (filter (\<lambda>r. (Request.Server req = [] \<or> row_server r = Request.Server req)
                       \<and> (Request.Tool req = [] \<or> row_tool r = Request.Tool req))
              (call_history (store srv)));
         rows = drop (length matching - nat L) matching
     in ListHistory now (store srv) (Request.Server req) (Request.Tool req) (Limit req)
          = Inr (map (scanRow now) rows)
        \<and> handle_history now srv req
          = \<lparr>OK = True, Error = [], History = map (scanRow now) rows, Result = None, Text = []\<rparr>
        \<and> sorted (map row_id rows)
        \<and> length rows = min (nat L) (length matching) \<and> 1 \<le> L \<and> L \<le> 500 \<and> (Limit req \<le> 0 \<longrightarrow> L = 50)"
proof -
  let ?L = "if Limit req \<le> 0 then 50 else if Limit req > 500 then 500 else Limit req"
  let ?m = "sort_key row_id
           (filter (\<lambda>r. (Request.Server req = [] \<or> row_server r = Request.Server req)
                       \<and> (Request.Tool req = [] \<or> row_tool r = Request.Tool req))
              (call_history (store srv)))"
  let ?rows = "drop (length ?m - nat ?L) ?m"
  have sel: "rev (selectHistory (store srv) (Request.Server req) (Request.Tool req) ?L) = ?rows"
    unfolding selectHistory_def by (rule rev_take_rev)
  have lh: "ListHistory now (store srv) (Request.Server req) (Request.Tool req) (Limit req)
          = Inr (map (scanRow now) ?rows)"
    using ListHistory_rows [OF assms] sel by simp
  have hh: "handle_history now srv req
          = \<lparr>OK = True, Error = [], History = map (scanRow now) ?rows, Result = None, Text = []\<rparr>"
    by (simp add: handle_history_ListHistory lh)
  have so: "sorted (map row_id ?rows)"
    by (rule sorted_drop_sort_key)
  have len: "length ?rows = min (nat ?L) (length ?m)" by simp
  have bounds: "1 \<le> ?L \<and> ?L \<le> 500 \<and> (Limit req \<le> 0 \<longrightarrow> ?L = 50)" by simp
  show ?thesis
    unfolding Let_def using lh hh so len bounds by blast
qed

lemma twoCalls_listing:
  "ListHistory 0 twoCalls ''notion'' [] 0 =
     Inr [\<lparr>At = 100, HistoryItem.Server = ''notion'', HistoryItem.Tool = ''search'', HistoryItem.Args = [],
           Success = True, HistoryItem.Error = [], DurationMs = 7\<rparr>,
          \<lparr>At = 200, HistoryItem.Server = ''notion'', HistoryItem.Tool = ''fetch'', HistoryItem.Args = [],
           Success = False, HistoryItem.Error = ''boom'', DurationMs = 9\<rparr>]"
  by code_simp

text \<open>
  C3 as stated fails: with the two calls of ids 1 and 2 in the store, the history lists
  the call of id 1 (at instant 100) before the call of id 2 (at instant 200).
\<close>

theorem history_most_recent_first_counterexample:
  "row_id (call_history twoCalls ! 0) = 1 \<and> row_id (call_history twoCalls ! 1) = 2
   \<and> History (handle_history 0 historyServer historyRequest) =
       [scanRow 0 (call_history twoCalls ! 0), scanRow 0 (call_history twoCalls ! 1)]
   \<and> map At (History (handle_history 0 historyServer historyRequest)) = [100, 200]"
  by code_simp

theorem history_latest_rows_oldest_first_witness:
  "db_error (store historyServer) = None
   \<and> list_all (\<lambda>r. row_args_json r \<noteq> ArgsNull) (call_history (store historyServer))
   \<and> handle_history 0 historyServer historyRequest
       = \<lparr>OK = True, Error = [],
          History = [scanRow 0 (call_history twoCalls ! 0), scanRow 0 (call_history twoCalls ! 1)],
          Result = None, Text = []\<rparr>"
proof -
  have a: "db_error (store historyServer) = None"
    by (simp add: historyServer_def twoCalls_def)
  have b: "\<forall>r \<in> set (call_history (store historyServer)). row_args_json r \<noteq> ArgsNull"
    by (simp add: historyServer_def twoCalls_def)
  have c: "sort_key row_id (filter (\<lambda>r. (Request.Server historyRequest = [] \<or> row_server r = Request.Server historyRequest)
                       \<and> (Request.Tool historyRequest = [] \<or> row_tool r = Request.Tool historyRequest))
              (call_history (store historyServer))) = call_history twoCalls"
    by (simp add: historyServer_def twoCalls_def historyRequest_def)
  have d: "map (scanRow 0) (call_history twoCalls)
           = [scanRow 0 (call_history twoCalls ! 0), scanRow 0 (call_history twoCalls ! 1)]"
    by (simp add: twoCalls_def)
  have e: "length (call_history twoCalls) = 2" by (simp add: twoCalls_def)
  have f: "Limit historyRequest = 0" by (simp add: historyRequest_def)
  from history_latest_rows_oldest_first [OF a b, of historyRequest 0]
  have "handle_history 0 historyServer historyRequest
       = \<lparr>OK = True, Error = [],
          History = map (scanRow 0) (call_history twoCalls),
          Result = None, Text = []\<rparr>"
    unfolding Let_def c f by (simp add: e)
  then show ?thesis using a b d by (simp add: list_all_iff)
qed

section \<open>Properties of the call action\<close>

lemma quot_nonneg: "0 \<le> a \<Longrightarrow> 0 < b \<Longrightarrow> 0 \<le> quot a b"
  by (simp add: quot_def sgn_if pos_imp_zdiv_nonneg_iff)

lemma time_Sub_nonneg: "u \<le> t \<Longrightarrow> 0 \<le> time_Sub t u"
  by (simp add: time_Sub_def)

lemma handle_call_guard:
  "Request.Server req = [] \<or> Request.Tool req = [] \<Longrightarrow>
     handle_call w started finished s req = (errorResponse ''server and tool are required'', s)"
  by (auto simp: handle_call_def)

text \<open>
  C4 (amended). For every \<open>call\<close> request whose server and tool are both given,
  whatever \<open>Registry.Call\<close> returns (an unknown server included), exactly one row is
  appended to the history when the database accepts the insert: its success column is
  1 exactly when \<open>Registry.Call\<close> returned no error, its error column is the message
  of the error (empty on success), and its duration is not negative when the wall
  clock did not go back between the start and the end of the call. The response is OK
  exactly when the row records a success.
\<close>

theorem call_writes_one_history_row:
  assumes "Request.Server req \<noteq> []" and "Request.Tool req \<noteq> []"
    and "db_error (store s) = None" and "started \<le> finished"
  shows
    "\<exists>row.
       call_history (store (snd (handle_call w started finished s req)))
         = call_history (store s) @ [row]
       \<and> row_server row = Request.Server req \<and> row_tool row = Request.Tool req
       \<and> row_at_utc row = AtText started
       \<and> (row_success row = 1 \<longleftrightarrow>
            (\<exists>result. Registry_Call w (cfg s) (Request.Server req) (Request.Tool req) (Request.Args req)
                        = Inr result))
       \<and> row_success row \<in> {0, 1}
       \<and> row_error row =
            Some (case Registry_Call w (cfg s) (Request.Server req) (Request.Tool req) (Request.Args req) of
                    Inl err \<Rightarrow> errorString err
                  | Inr result \<Rightarrow> [])
       \<and> 0 \<le> row_duration_ms row
       \<and> OK (fst (handle_call w started finished s req)) = (row_success row = 1)"
proof -
  have d: "0 \<le> quot (time_Sub finished started) 1000000"
    using assms(4) by (simp add: quot_nonneg time_Sub_nonneg)
  show ?thesis
    using assms(1-3) d
    by (cases "Registry_Call w (cfg s) (Request.Server req) (Request.Tool req) (Request.Args req)")
       (simp_all add: handle_call_def InsertHistory_def Let_def boolToInt_def errorResponse_def)
qed

text \<open>
  C4 as stated fails on a validation failure of the router itself: a \<open>call\<close> request
  without a tool is answered "server and tool are required" and leaves the history as
  it was.
\<close>

theorem call_without_tool_counterexample:
  "Action callRequestNoTool = ''call''
   \<and> handle_call quietWorld 1000 3500000 notionDaemon callRequestNoTool
       = (errorResponse ''server and tool are required'', notionDaemon)
   \<and> call_history (store (snd (handle_call quietWorld 1000 3500000 notionDaemon callRequestNoTool)))
       = call_history (store notionDaemon)"
  by (simp add: handle_call_guard callRequestNoTool_def)

lemma call_scenario:
  "handle_call quietWorld 1000 3500000 notionDaemon callRequest =
     (\<lparr>OK = True, Error = [], History = [], Result = Some (JString ''done''), Text = []\<rparr>,
      notionDaemon\<lparr>store := twoCalls
        \<lparr>call_history := call_history twoCalls @
           [\<lparr>row_id = 3, row_at_utc = AtText 1000, row_server = ''notion'', row_tool = ''search'',
             row_args_json = ArgsText [(''query'', JString ''roadmap'')], row_success = 1,
             row_error = Some [], row_duration_ms = 3\<rparr>],
         sequence := 3\<rparr>\<rparr>)"
  by code_simp

theorem call_writes_one_history_row_witness:
  "Request.Server callRequest \<noteq> [] \<and> Request.Tool callRequest \<noteq> []
   \<and> db_error (store notionDaemon) = None \<and> (1000::int) \<le> 3500000
   \<and> call_history (store (snd (handle_call quietWorld 1000 3500000 notionDaemon callRequest)))
       = call_history (store notionDaemon) @
           [\<lparr>row_id = 3, row_at_utc = AtText 1000, row_server = ''notion'', row_tool = ''search'',
             row_args_json = ArgsText [(''query'', JString ''roadmap'')], row_success = 1,
             row_error = Some [], row_duration_ms = 3\<rparr>]"
proof -
  have a: "Request.Server callRequest \<noteq> []" "Request.Tool callRequest \<noteq> []"
    by (simp_all add: callRequest_def)
  have b: "db_error (store notionDaemon) = None"
    by (simp add: notionDaemon_def twoCalls_def)
  have c: "(1000::int) \<le> 3500000" by simp
  have e: "call_history (store (snd (handle_call quietWorld 1000 3500000 notionDaemon callRequest)))
       = call_history twoCalls @
           [\<lparr>row_id = 3, row_at_utc = AtText 1000, row_server = ''notion'', row_tool = ''search'',
             row_args_json = ArgsText [(''query'', JString ''roadmap'')], row_success = 1,
             row_error = Some [], row_duration_ms = 3\<rparr>]"
    by (simp add: call_scenario)
  have f: "store notionDaemon = twoCalls" by (simp add: notionDaemon_def)
  from call_writes_one_history_row [OF a b c, of quietWorld]
  obtain row where
    "call_history (store (snd (handle_call quietWorld 1000 3500000 notionDaemon callRequest)))
       = call_history (store notionDaemon) @ [row]" by blast
  then show ?thesis
    using a b e f by simp
qed

section \<open>Properties of the OAuth fallback and the authorization flow\<close>

lemma hasAuthorizationHeader_iff:
  "hasAuthorizationHeader hs \<longleftrightarrow> (\<exists>(key, v) \<in> set hs. CanonicalHeaderKey key = ''Authorization'')"
  by (simp add: hasAuthorizationHeader_def list_ex_iff)

lemma shouldTryOAuthFallback_iff:
  "shouldTryOAuthFallback s (Some err) \<longleftrightarrow>
     MCPServer.Transport s \<noteq> ''stdio''
     \<and> (\<forall>(key, v) \<in> set (MCPServer.Headers s). CanonicalHeaderKey key \<noteq> ''Authorization'')
     \<and> errors_Is err Unauthorized"
  by (auto simp: shouldTryOAuthFallback_def hasAuthorizationHeader_iff)


text \<open>
  Inside the retry: once the callback server (when interactive) and the OAuth client
  are there, a session through the OAuth client that succeeds gives the result.
\<close>

lemma retryWithOAuth_session:
  assumes "interactive \<longrightarrow> startOAuthCallbackServer w = Inr cb"
    and "newOAuthClient w s
           \<lparr>RedirectURI = (if interactive then redirectURI cb
                            else ''http://127.0.0.1:53685/oauth/callback''),
            TokenStore = MCPServer.Name s, PKCEEnabled = True\<rparr> = Inr oauthClient"
    and "runOperationWithClient w oauthClient 0 operation = Inr result"
  shows "retryWithOAuth w s interactive operation = Inr result"
  using assms by (cases interactive) (simp_all add: retryWithOAuth_def)

lemma direct_unauthorized:
  "runOperation unauthorizedWorld notion (searchCall unauthorizedWorld)
     = Inl (Err Unauthorized ''unauthorized (401)'')"
  by code_simp

lemma direct_unauthorized_token:
  "runOperation unauthorizedWorld notionWithToken (searchCall unauthorizedWorld)
     = Inl (Err Unauthorized ''unauthorized (401)'')"
  by code_simp

lemma retry_done:
  "retryWithOAuth unauthorizedWorld notion True (searchCall unauthorizedWorld) = Inr (JString ''done'')"
  by code_simp

lemma notion_headers:
  "MCPServer.Transport notion = ''http'' \<and> MCPServer.Headers notion = []
   \<and> MCPServer.Transport notionWithToken = ''http''
   \<and> hasAuthorizationHeader (MCPServer.Headers notionWithToken)"
  by code_simp


text \<open>
  C6 (amended). In the authorization flow, once the handler, the PKCE verifier, the
  state and the authorization URL are there and the parameters have arrived (pasted in
  manual mode, or from the callback with the matching state): a code that is not empty
  is exchanged with the PKCE verifier and the state, whether or not an error parameter
  came with it; with no code, an error parameter that is not empty makes the flow fail
  with "oauth authorization failed: " followed by it; with neither, the flow fails
  with "oauth authorization did not return a code".
\<close>

theorem authorization_response_handling:
  assumes "GetOAuthHandler w authErr = Some h"
    and "GenerateCodeVerifier w = Inr codeVerifier"
    and "GenerateState w = Inr state"
    and "GetClientID h = [] \<longrightarrow> RegisterClient h ''mcpshim'' = None"
    and "GetAuthorizationURL h state (GenerateCodeChallenge w codeVerifier) = Inr authURL"
    and "(manual \<and> readManualOAuthInput w state = Inr params)
         \<or> (\<not> manual \<and> callback = Some cb \<and> wait w cb = Inr params
             \<and> param params ''state'' = state)"
  shows "completeOAuthFlow w authErr callback manual =
           (if param params ''code'' \<noteq> [] then
              ProcessAuthorizationResponse h (param params ''code'') state codeVerifier
            else if param params ''error'' \<noteq> [] then
              Some (Err Plain (''oauth authorization failed: '' @ param params ''error''))
            else Some (Err Plain ''oauth authorization did not return a code''))"
  using assms by (auto simp: completeOAuthFlow_def Let_def)

text \<open>
  C6 as stated fails: a callback that brings an error parameter together with a code
  (and the matching state) does not fail; the code is exchanged and the flow succeeds.
\<close>

theorem error_parameter_with_code_counterexample:
  "wait codeAndErrorWorld loopback
     = Inr [(''code'', ''xyz''), (''error'', ''access_denied''), (''state'', ''st'')]
   \<and> completeOAuthFlow codeAndErrorWorld authorizationRequired (Some loopback) False = None"
  by code_simp

lemma denied_handler:
  "GetOAuthHandler deniedWorld authorizationRequired = Some authorizationHandler"
  by (simp add: deniedWorld_def)

lemma denied_facts:
  "GenerateCodeVerifier deniedWorld = Inr ''verifier''
   \<and> GenerateState deniedWorld = Inr ''st''
   \<and> GetClientID authorizationHandler \<noteq> []
   \<and> GetAuthorizationURL authorizationHandler ''st'' (GenerateCodeChallenge deniedWorld ''verifier'')
       = Inr ''https://auth.example/authorize?state=st''
   \<and> wait deniedWorld loopback = Inr [(''error'', ''access_denied''), (''state'', ''st'')]
   \<and> param [(''error'', ''access_denied''), (''state'', ''st'')] ''state'' = ''st''
   \<and> param [(''error'', ''access_denied''), (''state'', ''st'')] ''code'' = []
   \<and> param [(''error'', ''access_denied''), (''state'', ''st'')] ''error'' = ''access_denied''"
  by code_simp

theorem authorization_response_handling_witness:
  "wait deniedWorld loopback = Inr [(''error'', ''access_denied''), (''state'', ''st'')]
   \<and> completeOAuthFlow deniedWorld authorizationRequired (Some loopback) False
     = Some (Err Plain ''oauth authorization failed: access_denied'')"
  using authorization_response_handling
    [of deniedWorld authorizationRequired authorizationHandler "''verifier''" "''st''"
        "''https://auth.example/authorize?state=st''" False
        "[(''error'', ''access_denied''), (''state'', ''st'')]" "Some loopback" loopback]
    denied_handler denied_facts
  by simp

section \<open>Properties of the configuration: the round trip and add_server\<close>

lemma upper_A: "(of_char (CHR ''A'') :: nat) = 65" by simp
lemma upper_Z: "(of_char (CHR ''Z'') :: nat) = 90" by simp

lemma toLowerByte_code:
  "(of_char (toLowerByte c) :: nat) =
     (if 65 \<le> (of_char c :: nat) \<and> (of_char c :: nat) \<le> 90 then of_char c + 32 else of_char c)"
  by (simp add: toLowerByte_def less_eq_char_def)

lemma toLowerByte_idem: "toLowerByte (toLowerByte c) = toLowerByte c"
proof -
  have "(of_char (toLowerByte (toLowerByte c)) :: nat) = of_char (toLowerByte c)"
    by (simp add: toLowerByte_code)
  then show ?thesis by (simp only: of_char_eq_iff)
qed

lemma isSpaceByte_code:
  "isSpaceByte c \<longleftrightarrow> (of_char c :: nat) \<in> {9, 10, 11, 12, 13, 32}"
proof -
  have e: "\<And>d. (c = d) = ((of_char c :: nat) = of_char d)" by (simp only: of_char_eq_iff)
  show ?thesis unfolding isSpaceByte_def e by simp
qed

lemma isSpaceByte_toLowerByte: "isSpaceByte (toLowerByte c) = isSpaceByte c"
  by (simp add: isSpaceByte_code toLowerByte_code)

lemma ToLower_idem: "ToLower (ToLower s) = ToLower s"
  by (simp add: ToLower_def toLowerByte_idem)

lemma dropWhile_isSpace_ToLower:
  "dropWhile isSpaceByte (ToLower s) = ToLower (dropWhile isSpaceByte s)"
  by (induction s) (simp_all add: ToLower_def isSpaceByte_toLowerByte)

lemma TrimSpace_ToLower: "TrimSpace (ToLower s) = ToLower (TrimSpace s)"
proof -
  have r: "\<And>xs. rev (ToLower xs) = ToLower (rev xs)" by (simp add: ToLower_def rev_map)
  show ?thesis
    by (simp add: TrimSpace_def dropWhile_isSpace_ToLower r)
qed

lemma dropWhile_snoc_keep:
  "\<not> P c \<Longrightarrow> \<exists>zs. dropWhile P (xs @ [c]) = zs @ [c]"
  by (induction xs) auto

lemma dropWhile_id: "xs = [] \<or> \<not> P (hd xs) \<Longrightarrow> dropWhile P xs = xs"
  by (cases xs) auto

lemma TrimSpace_idem: "TrimSpace (TrimSpace s) = TrimSpace s"
proof (cases "dropWhile isSpaceByte s")
  case Nil
  then show ?thesis unfolding TrimSpace_def by (simp only: Nil rev.simps dropWhile.simps)
next
  case (Cons c cs)
  then have nc: "\<not> isSpaceByte c"
    by (metis hd_dropWhile list.sel(1) list.distinct(1))
  obtain zs where zs: "dropWhile isSpaceByte (rev cs @ [c]) = zs @ [c]"
    using dropWhile_snoc_keep [of isSpaceByte c "rev cs"] nc by blast
  have t: "TrimSpace s = c # rev zs"
    using Cons zs by (simp add: TrimSpace_def)
  have a: "dropWhile isSpaceByte (c # rev zs) = c # rev zs" using nc by simp
  have b: "dropWhile isSpaceByte (rev (c # rev zs)) = rev (c # rev zs)"
  proof -
    have "rev (c # rev zs) = dropWhile isSpaceByte (rev cs @ [c])" using zs by simp
    then show ?thesis by (metis dropWhile_idem)
  qed
  show ?thesis
    unfolding t unfolding TrimSpace_def a b by simp
qed

lemma normalize_handler_transport:
  "TrimSpace (ToLower (ToLower (TrimSpace v))) = ToLower (TrimSpace v)"
  by (simp add: ToLower_idem TrimSpace_ToLower TrimSpace_idem)

lemma Expand_dollar_free: "CHR ''$'' \<notin> set s \<Longrightarrow> Expand s mapping = s"
  by (induction s mapping rule: Expand.induct) auto

lemma ExpandEnv_dollar_free: "CHR ''$'' \<notin> set s \<Longrightarrow> ExpandEnv os s = s"
  by (simp add: ExpandEnv_def Expand_dollar_free)

lemma map_ExpandEnv_dollar_free:
  "list_all (\<lambda>v. CHR ''$'' \<notin> set v) vs \<Longrightarrow> map (ExpandEnv os) vs = vs"
  by (induction vs) (simp_all add: ExpandEnv_dollar_free)

lemma map_headers_dollar_free:
  "list_all (\<lambda>(k, v). CHR ''$'' \<notin> set v) hs \<Longrightarrow> map (\<lambda>(k, v). (k, ExpandEnv os v)) hs = hs"
  by (induction hs) (auto simp: ExpandEnv_dollar_free)

lemma spec_expandedServer_dollar_free:
  "dollarFreeServer s \<Longrightarrow> spec_expandedServer os s = s"
  by (simp add: dollarFreeServer_def spec_expandedServer_def ExpandEnv_dollar_free
      map_ExpandEnv_dollar_free map_headers_dollar_free)

lemma spec_expanded_dollar_free:
  assumes "list_all dollarFreeServer (Servers conf)"
    and "SocketPath (Config.Server conf) \<noteq> []" and "DBPath (Config.Server conf) \<noteq> []"
  shows "spec_expanded os conf = conf"
proof -
  have "map (spec_expandedServer os) (Servers conf) = Servers conf"
    using assms(1) by (induction "Servers conf" arbitrary: conf)
      (simp_all add: list_all_iff spec_expandedServer_dollar_free map_idI)
  then show ?thesis
    using assms(2,3) by (simp add: spec_expanded_def)
qed

lemma loadServer_spec:
  "loadServer os s = Inr s' \<Longrightarrow> s' = spec_normalizedServer (spec_expandedServer os s)"
  by (auto simp: loadServer_def Let_def spec_normalizedServer_def spec_expandedServer_def
      normalizedTransport_def split: sum.splits)

lemma loadServers_spec:
  "loadServers os ss = Inr ss' \<Longrightarrow> ss' = map (\<lambda>s. spec_normalizedServer (spec_expandedServer os s)) ss"
  by (induction ss arbitrary: ss') (auto split: sum.splits dest: loadServer_spec)

lemma Load_doc:
  assumes "ReadFile fs path = Inr (YamlDoc conf)" and "Load os fs path = Inr loaded"
  shows "loaded = spec_normalized (spec_expanded os conf)"
  using assms
  by (auto simp: Load_def yaml_Decode_def Let_def spec_normalized_def spec_expanded_def comp_def
      split: sum.splits option.splits dest!: loadServers_spec)

lemma Load_same_file:
  "ReadFile fs path = ReadFile fs2 path2 \<Longrightarrow> Load os fs path = Load os fs2 path2"
  by (simp add: Load_def)

lemma Save_success:
  assumes "Save os fs path (Some conf) = (None, fs')"
  shows "validate conf = None
     \<and> (\<exists>fs1 loaded. WriteFile fs (path @ ''.tmp'') (YamlDoc conf) = Inr fs1
          \<and> Load os fs1 (path @ ''.tmp'') = Inr loaded
          \<and> Rename fs1 (path @ ''.tmp'') path = Inr fs')"
  using assms
  by (auto simp: Save_def yaml_Marshal_def split: option.splits sum.splits)

lemma WriteFile_read:
  "WriteFile fs p d = Inr fs1 \<Longrightarrow> ReadFile fs1 p = Inr d"
  by (auto simp: WriteFile_def ReadFile_def update_conv' split: option.splits)

lemma Rename_read:
  "Rename fs1 old new = Inr fs2 \<Longrightarrow> ReadFile fs2 new = ReadFile fs1 old"
  by (auto simp: Rename_def ReadFile_def update_conv' split: option.splits)

lemma Save_then_Load:
  assumes "Save os fs path (Some conf) = (None, fs')"
  shows "Load os fs' path = Inr (spec_normalized (spec_expanded os conf))"
proof -
  from Save_success [OF assms] obtain fs1 loaded where
    w: "WriteFile fs (path @ ''.tmp'') (YamlDoc conf) = Inr fs1"
    and l: "Load os fs1 (path @ ''.tmp'') = Inr loaded"
    and r: "Rename fs1 (path @ ''.tmp'') path = Inr fs'" by blast
  have rd: "ReadFile fs1 (path @ ''.tmp'') = Inr (YamlDoc conf)" using w by (rule WriteFile_read)
  have "Load os fs' path = Load os fs1 (path @ ''.tmp'')"
    using Rename_read [OF r] by (rule Load_same_file)
  then show ?thesis using l Load_doc [OF rd l] by simp
qed


lemma teamConfig_saved:
  "fst (Save bare emptyDisk ''/etc/mcpshim.yaml'' (Some teamConfig)) = None
   \<and> Load bare (snd (Save bare emptyDisk ''/etc/mcpshim.yaml'' (Some teamConfig))) ''/etc/mcpshim.yaml''
       = Inr \<lparr>Config.Server = \<lparr>SocketPath = ''/run/mcpshim.sock'', DBPath = ''/var/mcpshim.db''\<rparr>,
              Servers = [notion\<lparr>MCPServer.URL := ''https://mcp.notion.com//mcp''\<rparr>]\<rparr>
   \<and> spec_normalized teamConfig = teamConfig"
  by code_simp


lemma plainConfig_saved:
  "Save bare emptyDisk ''/etc/mcpshim.yaml'' (Some plainConfig)
     = (None, emptyDisk\<lparr>files := [(''/etc/mcpshim.yaml'', YamlDoc plainConfig)]\<rparr>)"
  by code_simp

lemma plainConfig_facts:
  "list_all dollarFreeServer (Servers plainConfig)
   \<and> SocketPath (Config.Server plainConfig) \<noteq> [] \<and> DBPath (Config.Server plainConfig) \<noteq> []
   \<and> spec_normalized plainConfig
       = \<lparr>Config.Server = \<lparr>SocketPath = ''/run/mcpshim.sock'', DBPath = ''/var/mcpshim.db''\<rparr>,
          Servers = [notion]\<rparr>"
  by code_simp


lemma normalizeTransport_unrecognized:
  assumes "ToLower (TrimSpace v) \<notin> {[], ''http'', ''streamable-http'', ''sse'', ''stdio''}"
  shows "\<exists>err. normalizeTransport (ToLower (TrimSpace v)) = Inl err"
  using assms by (simp add: normalizeTransport_def Let_def normalize_handler_transport)

lemma normalizeTransport_http: "normalizeTransport ''http'' = Inr ''http''"
  by code_simp

lemma find_upsert:
  "find (\<lambda>x. MCPServer.Name x = MCPServer.Name item) (upsert ss item) = Some item"
  by (induction ss) auto

lemma UpsertServer_unrecognized:
  assumes "normalizeTransport (MCPServer.Transport item) = Inl err"
  shows "find (\<lambda>x. MCPServer.Name x = MCPServer.Name item) (Servers (UpsertServer c item))
           = Some (item\<lparr>MCPServer.Transport := ''http'',
                        MCPServer.Alias := (if MCPServer.Alias item = [] then MCPServer.Name item
                                            else MCPServer.Alias item)\<rparr>)"
proof -
  let ?item2 = "item\<lparr>MCPServer.Transport := ''http'',
                        MCPServer.Alias := (if MCPServer.Alias item = [] then MCPServer.Name item
                                            else MCPServer.Alias item)\<rparr>"
  have "Servers (UpsertServer c item) = upsert (Servers c) ?item2"
    using assms by (simp add: UpsertServer_def Let_def)
  moreover have "MCPServer.Name ?item2 = MCPServer.Name item" by simp
  ultimately show ?thesis using find_upsert [of ?item2 "Servers c"] by simp
qed

lemma find_in_set: "find P xs = Some x \<Longrightarrow> x \<in> set xs \<and> P x"
  by (induction xs) (auto split: if_splits)

lemma loaded_keeps_http:
  assumes "x \<in> set (Servers c)" and "MCPServer.Transport x = ''http''"
  shows "\<exists>y \<in> set (Servers (spec_normalized (spec_expanded os c))).
           MCPServer.Name y = MCPServer.Name x \<and> MCPServer.Transport y = ''http''"
proof -
  let ?y = "spec_normalizedServer (spec_expandedServer os x)"
  have "?y \<in> set (Servers (spec_normalized (spec_expanded os c)))"
    using assms(1) by (simp add: spec_normalized_def spec_expanded_def)
  moreover have "MCPServer.Name ?y = MCPServer.Name x \<and> MCPServer.Transport ?y = ''http''"
    using assms(2)
    by (simp add: spec_normalizedServer_def spec_expandedServer_def normalizedTransport_def
        normalizeTransport_http)
  ultimately show ?thesis by blast
qed


lemma alias_taken:
  "handle_add_server bare emptyDisk notionDaemon aliasTakenRequest
     = (errorResponse (''duplicate alias '' @ quote ''notion''),
        notionDaemon\<lparr>cfg := (cfg notionDaemon)\<lparr>Servers := [notion, linear\<lparr>MCPServer.Alias := ''notion''\<rparr>]\<rparr>\<rparr>,
        emptyDisk)"
  by code_simp


lemma websocket_added:
  "handle_add_server bare emptyDisk notionDaemon websocketRequest
     = (\<lparr>OK = True, Error = [], History = [], Result = None, Text = ''added server linear''\<rparr>,
        notionDaemon\<lparr>cfg := (cfg notionDaemon)\<lparr>Servers := [notion, linear]\<rparr>\<rparr>,
        emptyDisk\<lparr>files := [(''/etc/mcpshim.yaml'',
                               YamlDoc ((cfg notionDaemon)\<lparr>Servers := [notion, linear]\<rparr>))]\<rparr>)"
  by code_simp

lemma websocket_facts:
  "Request.Name websocketRequest \<noteq> [] \<and> Request.URL websocketRequest \<noteq> []
   \<and> ToLower (TrimSpace (Request.Transport websocketRequest)) = ''websocket''"
  by code_simp


section \<open>The client factory and Login on a stdio server\<close>

lemma newClient_not_sse:
  "MCPServer.Transport s \<noteq> ''sse'' \<Longrightarrow>
     newClient w s =
       (case NewClient_error w
               (StreamableHttpClient (MCPServer.URL s)
                  (if length (MCPServer.Headers s) > 0 then [WithHTTPHeaders (MCPServer.Headers s)] else []))
        of Some err \<Rightarrow> Inl err
         | None \<Rightarrow> Inr (StreamableHttpClient (MCPServer.URL s)
                  (if length (MCPServer.Headers s) > 0 then [WithHTTPHeaders (MCPServer.Headers s)] else [])))"
  by (simp add: newClient_def Let_def)

text \<open>
  C1, at the inputs of the tests: for a stdio server, with an empty command or with the
  command echo, \<open>newClient\<close> returns a streamable-HTTP client for the (empty) url
  and no error.
\<close>

theorem newClient_stdio_failing_input:
  "MCPServer.Transport emptyCommandServer = ''stdio'' \<and> MCPServer.Command emptyCommandServer = []
   \<and> newClient quietWorld emptyCommandServer = Inr (StreamableHttpClient [] [])
   \<and> MCPServer.Transport localServer = ''stdio'' \<and> MCPServer.Command localServer = [''echo'']
   \<and> newClient quietWorld localServer = Inr (StreamableHttpClient [] [])"
  by code_simp

lemma Login_runs_flow:
  "findServer c server = Some s \<Longrightarrow> Registry_Login w c server manual = runOAuthLogin w s manual"
  by (simp add: Registry_Login_def)

text \<open>
  C2, at the input of the test: \<open>Login\<close> of the stdio server local runs the login
  flow. Where the session starts it returns no error; where the session cannot start it
  returns the error of the transport, which does not mention stdio.
\<close>

theorem Login_stdio_failing_input:
  "findServer localConfig ''local'' = Some localServer
   \<and> MCPServer.Transport localServer = ''stdio''
   \<and> Registry_Login quietWorld localConfig ''local'' False = None
   \<and> Registry_Login refusedWorld localConfig ''local'' False
       = Some (Err Plain ''dial tcp: connection refused'')
   \<and> \<not> Contains ''dial tcp: connection refused'' ''stdio''"
  by code_simp

end
